theory Spec2Isabelle
  imports Main "HOL-Library.AList" "HOL-Library.Sublist"
begin

section \<open>The data model of \<open>views/racehubView.ts\<close>\<close>

text \<open>
  The two string-literal union types of lines 24-25. They are declared independently of
  each other, and the provider keeps one field of each (lines 105-106).
\<close>

datatype ViewState = LoggedOut | NeedsWorkspace | Ready

datatype ViewStateDetail =
  NoneDetail | NotLoggedIn | SessionExpired | WorkspaceMissing | NoBinaries | RequestError

text \<open>\<open>LocalBinary\<close> (from \<open>../workspace\<close>): the fields the view reads.\<close>

record LocalBinary =
  bin_name :: string
  bin_rootPath :: string
  bin_sourcePath :: "string option"

text \<open>\<open>ArtifactSummary\<close> (from \<open>../types\<close>): the fields the view reads.\<close>

record ArtifactSummary =
  art_id :: nat
  art_name :: string
  art_owner_username :: string
  art_is_public :: bool
  art_owned_by_me :: bool

datatype RootNodeKind = LocalRoot | RemoteRoot

datatype Node =
    RootNode RootNodeKind
  | LocalBin LocalBinary
  | RemoteArtifact ArtifactSummary
  | Message string

text \<open>
  The mutable fields of \<open>RaceHubViewProvider\<close> (lines 105-110). A \<open>RaceHubItem\<close> carries
  nothing the operations read but its node, so an optional item is a \<open>Node option\<close>.
\<close>

record RaceHubViewProvider =
  state :: ViewState
  stateDetail :: ViewStateDetail
  token :: "string option"
  workspaceRoot :: "string option"
  localBinaries :: "LocalBinary list"
  artifacts :: "ArtifactSummary list"

definition initialProvider :: RaceHubViewProvider where
  "initialProvider =
     \<lparr>state = LoggedOut, stateDetail = NotLoggedIn, token = None, workspaceRoot = None,
      localBinaries = [], artifacts = []\<rparr>"

text \<open>The legal details of each state, as the README and the specification list them.\<close>

fun legalDetail :: "ViewState \<Rightarrow> ViewStateDetail \<Rightarrow> bool" where
  "legalDetail LoggedOut d = (d = NotLoggedIn \<or> d = SessionExpired \<or> d = RequestError)"
| "legalDetail NeedsWorkspace d = (d = WorkspaceMissing \<or> d = NoBinaries)"
| "legalDetail Ready d = (d = NoneDetail)"

section \<open>Values of the host language\<close>

text \<open>
  A thrown value is kept as the text \<open>String(error)\<close> gives for it, which is all the
  source ever reads of one. \<open>new Error(m)\<close> prints as \<open>Error: m\<close>.
\<close>

type_synonym error = string

definition Error :: "string \<Rightarrow> error" where
  "Error m = ''Error: '' @ m"

text \<open>\<open>s.includes(sub)\<close>.\<close>

fun includes_str :: "string \<Rightarrow> string \<Rightarrow> bool" where
  "includes_str [] sub = (sub = [])"
| "includes_str (c # cs) sub = (prefix sub (c # cs) \<or> includes_str cs sub)"

text \<open>\<open>!s\<close> for \<open>s: string | undefined\<close>: undefined and the empty string are falsy.\<close>

fun falsy :: "string option \<Rightarrow> bool" where
  "falsy None = True"
| "falsy (Some s) = (s = [])"

text \<open>Decimal printing of a number inside a template string.\<close>

fun string_of_nat :: "nat \<Rightarrow> string" where
  "string_of_nat n =
     (if n < 10 then [char_of (48 + n)]
      else string_of_nat (n div 10) @ [char_of (48 + n mod 10)])"

declare string_of_nat.simps [simp del]

section \<open>The collaborators\<close>

text \<open>
  Everything the view imports from \<open>../api\<close>, \<open>../auth\<close>, \<open>../build\<close>, \<open>../config\<close>,
  \<open>../workspace\<close>, \<open>fs\<close>, \<open>path\<close> and \<open>vscode\<close> is a parameter. The outside world is a
  value of an arbitrary type \<open>'w\<close>; a call reads it and returns the next one, so that two
  calls of one function may answer differently. A call that can throw returns
  \<open>Inl\<close> of the thrown value's text.

  The calls that cannot answer with a failure here are the getter of the workspace root,
  \<open>clearToken\<close>, \<open>fs.existsSync\<close>, the configuration read and the operator prompts.
  The host's \<open>setContext\<close> command and the change event only leave an event, and so do
  the notifications, which the source does not await. These are the calls the source
  itself makes with no handler around them: \<open>getWorkspaceRoot\<close> before the \<open>try\<close> block
  of a refresh, \<open>clearToken\<close> and \<open>pushContext\<close> inside its \<open>catch\<close> block.
\<close>

record capabilities =
  auth_required :: bool

record uploadRequest =
  up_name :: string
  up_note :: "string option"
  up_target :: string
  up_elf_base64 :: string

record quickPickItem =
  qp_label :: string
  qp_description :: string
  qp_bin :: LocalBinary

record 'w env =
  getWorkspaceRoot :: "'w \<Rightarrow> string option \<times> 'w"
  hasCargoToml :: "string \<Rightarrow> 'w \<Rightarrow> (error + bool) \<times> 'w"
  listLocalBinaries :: "string \<Rightarrow> 'w \<Rightarrow> (error + LocalBinary list) \<times> 'w"
  artifactOutputPath :: "string \<Rightarrow> string \<Rightarrow> string"
  fetchCapabilities :: "'w \<Rightarrow> (error + capabilities) \<times> 'w"
  listArtifacts :: "string option \<Rightarrow> 'w \<Rightarrow> (error + ArtifactSummary list) \<times> 'w"
  uploadArtifact :: "uploadRequest \<Rightarrow> string option \<Rightarrow> 'w \<Rightarrow> (error + nat) \<times> 'w"
  deleteArtifact_api :: "nat \<Rightarrow> string option \<Rightarrow> 'w \<Rightarrow> (error + unit) \<times> 'w"
  updateArtifactVisibility :: "nat \<Rightarrow> bool \<Rightarrow> string option \<Rightarrow> 'w \<Rightarrow> (error + unit) \<times> 'w"
  readToken :: "'w \<Rightarrow> (error + string option) \<times> 'w"
  clearToken :: "'w \<Rightarrow> unit \<times> 'w"
  buildBinary :: "string \<Rightarrow> string \<Rightarrow> 'w \<Rightarrow> (error + unit) \<times> 'w"
  defaultArtifactTarget :: "'w \<Rightarrow> string \<times> 'w"
  existsSync :: "string \<Rightarrow> 'w \<Rightarrow> bool \<times> 'w"
  readFileSync :: "string \<Rightarrow> 'w \<Rightarrow> (error + string) \<times> 'w"
  toBase64 :: "string \<Rightarrow> string"
  trim :: "string \<Rightarrow> string"
  normalize :: "string \<Rightarrow> string"
  uriFsPath :: "string \<Rightarrow> string"
  uriPath :: "string \<Rightarrow> string"
  showInputBox :: "string \<Rightarrow> string \<Rightarrow> 'w \<Rightarrow> string option \<times> 'w"
  showQuickPick :: "quickPickItem list \<Rightarrow> string \<Rightarrow> 'w \<Rightarrow> quickPickItem option \<times> 'w"
  showWarningModal :: "string \<Rightarrow> string \<Rightarrow> 'w \<Rightarrow> string option \<times> 'w"
  revealFileInOS :: "string \<Rightarrow> 'w \<Rightarrow> (error + unit) \<times> 'w"

text \<open>What a run leaves behind: one event for each call it issued, in order.\<close>

datatype contextValue =
    StateValue ViewState
  | DetailValue ViewStateDetail
  | PathsValue "(string \<times> bool) list"

datatype event =
    GetWorkspaceRoot
  | HasCargoToml string
  | ListLocalBinaries string
  | FetchCapabilities
  | ListArtifacts "string option"
  | UploadArtifact uploadRequest "string option"
  | DeleteArtifact nat "string option"
  | UpdateArtifactVisibility nat bool "string option"
  | ReadToken
  | ClearToken
  | BuildBinary string string
  | DefaultArtifactTarget
  | ExistsSync string
  | ReadFileSync string
  | ShowInputBox string string
  | ShowQuickPick "quickPickItem list" string
  | ShowWarningModal string string
  | RevealFileInOS string
  | SetContext string contextValue
  | Fire
  | ShowInformationMessage string
  | ShowWarningMessage string

text \<open>The calls that go to the registry over the network, and those that change it.\<close>

fun isNetworkCall :: "event \<Rightarrow> bool" where
  "isNetworkCall FetchCapabilities = True"
| "isNetworkCall (ListArtifacts t) = True"
| "isNetworkCall (UploadArtifact r t) = True"
| "isNetworkCall (DeleteArtifact i t) = True"
| "isNetworkCall (UpdateArtifactVisibility i p t) = True"
| "isNetworkCall ev = False"

fun isRemoteMutation :: "event \<Rightarrow> bool" where
  "isRemoteMutation (UploadArtifact r t) = True"
| "isRemoteMutation (DeleteArtifact i t) = True"
| "isRemoteMutation (UpdateArtifactVisibility i p t) = True"
| "isRemoteMutation ev = False"

section \<open>Sequencing\<close>

text \<open>
  An asynchronous method is a function from the provider's fields and the world to its
  outcome (\<open>Inl\<close>: the promise rejects), the fields and the world it leaves, and the
  events it issued. Nothing here runs two methods at once.
\<close>

type_synonym ('w, 'a) prog =
  "RaceHubViewProvider \<times> 'w \<Rightarrow> (error + 'a) \<times> (RaceHubViewProvider \<times> 'w) \<times> event list"

definition return :: "'a \<Rightarrow> ('w, 'a) prog" where
  "return x = (\<lambda>s. (Inr x, s, []))"

definition throw :: "error \<Rightarrow> ('w, 'a) prog" where
  "throw err = (\<lambda>s. (Inl err, s, []))"

definition bindE :: "('w, 'a) prog \<Rightarrow> ('a \<Rightarrow> ('w, 'b) prog) \<Rightarrow> ('w, 'b) prog" where
  "bindE m f = (\<lambda>s.
     case m s of
       (Inl err, s1, t1) \<Rightarrow> (Inl err, s1, t1)
     | (Inr x, s1, t1) \<Rightarrow> (case f x s1 of (r, s2, t2) \<Rightarrow> (r, s2, t1 @ t2)))"

text \<open>\<open>try { m } catch (error) { h error }\<close>.\<close>

definition catchE :: "('w, 'a) prog \<Rightarrow> (error \<Rightarrow> ('w, 'a) prog) \<Rightarrow> ('w, 'a) prog" where
  "catchE m h = (\<lambda>s.
     case m s of
       (Inl err, s1, t1) \<Rightarrow> (case h err s1 of (r, s2, t2) \<Rightarrow> (r, s2, t1 @ t2))
     | (Inr x, s1, t1) \<Rightarrow> (Inr x, s1, t1))"

definition getField :: "(RaceHubViewProvider \<Rightarrow> 'a) \<Rightarrow> ('w, 'a) prog" where
  "getField f = (\<lambda>(p, w). (Inr (f p), (p, w), []))"

definition modify :: "(RaceHubViewProvider \<Rightarrow> RaceHubViewProvider) \<Rightarrow> ('w, unit) prog" where
  "modify f = (\<lambda>(p, w). (Inr (), (f p, w), []))"

definition emit :: "event \<Rightarrow> ('w, unit) prog" where
  "emit ev = (\<lambda>s. (Inr (), s, [ev]))"

definition call :: "event \<Rightarrow> ('w \<Rightarrow> 'r \<times> 'w) \<Rightarrow> ('w, 'r) prog" where
  "call ev f = (\<lambda>(p, w). case f w of (r, w1) \<Rightarrow> (Inr r, (p, w1), [ev]))"

definition callE :: "event \<Rightarrow> ('w \<Rightarrow> (error + 'r) \<times> 'w) \<Rightarrow> ('w, 'r) prog" where
  "callE ev f = (\<lambda>(p, w). case f w of (r, w1) \<Rightarrow> (r, (p, w1), [ev]))"

text \<open>Reading the three parts of an outcome.\<close>

definition outcome :: "(error + 'a) \<times> (RaceHubViewProvider \<times> 'w) \<times> event list \<Rightarrow> error + 'a" where
  "outcome r = fst r"

definition provider :: "(error + 'a) \<times> (RaceHubViewProvider \<times> 'w) \<times> event list \<Rightarrow> RaceHubViewProvider" where
  "provider r = fst (fst (snd r))"

definition worldOf :: "(error + 'a) \<times> (RaceHubViewProvider \<times> 'w) \<times> event list \<Rightarrow> 'w" where
  "worldOf r = snd (fst (snd r))"

definition events :: "(error + 'a) \<times> (RaceHubViewProvider \<times> 'w) \<times> event list \<Rightarrow> event list" where
  "events r = snd (snd r)"

text \<open>Whether a method left by an early \<open>return\<close> or runs on.\<close>

datatype flow = Returned | Continue

section \<open>\<open>RaceHubViewProvider\<close>: publishing the status (lines 172-191)\<close>

text \<open>
  The loop of \<open>pushBinSourcePathsContext\<close>. \<open>allowed\<close> is the object being filled, as
  the list of its keys in the order they were first set.
\<close>

fun binSourcePaths :: "'w env \<Rightarrow> LocalBinary list \<Rightarrow> (string \<times> bool) list \<Rightarrow> (string \<times> bool) list" where
  "binSourcePaths env [] allowed = allowed"
| "binSourcePaths env (bin # bins) allowed =
     (case bin_sourcePath bin of
        None \<Rightarrow> binSourcePaths env bins allowed
      | Some sourcePath \<Rightarrow>
          if sourcePath = [] then binSourcePaths env bins allowed
          else
            let normalizedFsPath = normalize env sourcePath;
                allowed1 = AList.update normalizedFsPath True allowed;
                allowed2 = AList.update (uriFsPath env normalizedFsPath) True allowed1;
                allowed3 = AList.update (uriPath env normalizedFsPath) True allowed2
            in binSourcePaths env bins allowed3)"

definition pushBinSourcePathsContext :: "'w env \<Rightarrow> ('w, unit) prog" where
  "pushBinSourcePathsContext env =
     bindE (getField localBinaries) (\<lambda>bins.
     emit (SetContext ''racehub.binSourcePaths'' (PathsValue (binSourcePaths env bins []))))"

definition pushContext :: "'w env \<Rightarrow> ('w, unit) prog" where
  "pushContext env =
     bindE (getField state) (\<lambda>s.
     bindE (emit (SetContext ''racehub.state'' (StateValue s))) (\<lambda>_.
     bindE (getField stateDetail) (\<lambda>d.
     bindE (emit (SetContext ''racehub.stateDetail'' (DetailValue d))) (\<lambda>_.
     pushBinSourcePathsContext env))))"

section \<open>\<open>refreshArtifacts\<close> (lines 114-170)\<close>

text \<open>
  The body of the \<open>try\<close> block, in the three parts the source writes one after the
  other. A part that ends in \<open>return\<close> answers \<open>Returned\<close>, and the rest is skipped.

  Lines 121-133: the capability probe and the session.
\<close>

definition refreshArtifacts_auth :: "'w env \<Rightarrow> ('w, flow) prog" where
  "refreshArtifacts_auth env =
     bindE (callE FetchCapabilities (fetchCapabilities env)) (\<lambda>caps.
     if auth_required caps then
       bindE (callE ReadToken (readToken env)) (\<lambda>tok.
       bindE (modify (\<lambda>p. p\<lparr>token := tok\<rparr>)) (\<lambda>_.
       if falsy tok then
         bindE (modify (\<lambda>p. p\<lparr>state := LoggedOut\<rparr>)) (\<lambda>_.
         bindE (modify (\<lambda>p. p\<lparr>stateDetail := NotLoggedIn\<rparr>)) (\<lambda>_.
         bindE (pushContext env) (\<lambda>_.
         bindE (emit Fire) (\<lambda>_.
         return Returned))))
       else return Continue))
     else
       bindE (modify (\<lambda>p. p\<lparr>token := None\<rparr>)) (\<lambda>_. return Continue))"

text \<open>
  Lines 135-150: the manifest and the local binaries. \<open>hasCargoToml\<close> is called only on
  a root that is not falsy, as \<open>||\<close> evaluates.
\<close>

definition refreshArtifacts_workspace :: "'w env \<Rightarrow> ('w, flow) prog" where
  "refreshArtifacts_workspace env =
     bindE (getField workspaceRoot) (\<lambda>root.
     bindE
       (case root of
          None \<Rightarrow> return None
        | Some r \<Rightarrow>
            if r = [] then return None
            else bindE (callE (HasCargoToml r) (hasCargoToml env r)) (\<lambda>has.
                 return (if has then Some r else None)))
       (\<lambda>manifest.
     case manifest of
       None \<Rightarrow>
         bindE (modify (\<lambda>p. p\<lparr>state := NeedsWorkspace\<rparr>)) (\<lambda>_.
         bindE (modify (\<lambda>p. p\<lparr>stateDetail := WorkspaceMissing\<rparr>)) (\<lambda>_.
         bindE (pushContext env) (\<lambda>_.
         bindE (emit Fire) (\<lambda>_.
         return Returned))))
     | Some r \<Rightarrow>
         bindE (callE (ListLocalBinaries r) (listLocalBinaries env r)) (\<lambda>bins.
         bindE (modify (\<lambda>p. p\<lparr>localBinaries := bins\<rparr>)) (\<lambda>_.
         if length bins = 0 then
           bindE (modify (\<lambda>p. p\<lparr>state := NeedsWorkspace\<rparr>)) (\<lambda>_.
           bindE (modify (\<lambda>p. p\<lparr>stateDetail := NoBinaries\<rparr>)) (\<lambda>_.
           bindE (pushContext env) (\<lambda>_.
           bindE (emit Fire) (\<lambda>_.
           return Returned))))
         else return Continue))))"

text \<open>Lines 152-156: the remote list.\<close>

definition refreshArtifacts_ready :: "'w env \<Rightarrow> ('w, unit) prog" where
  "refreshArtifacts_ready env =
     bindE (modify (\<lambda>p. p\<lparr>state := Ready\<rparr>)) (\<lambda>_.
     bindE (modify (\<lambda>p. p\<lparr>stateDetail := NoneDetail\<rparr>)) (\<lambda>_.
     bindE (getField token) (\<lambda>tok.
     bindE (callE (ListArtifacts tok) (listArtifacts env tok)) (\<lambda>arts.
     bindE (modify (\<lambda>p. p\<lparr>artifacts := arts\<rparr>)) (\<lambda>_.
     bindE (pushContext env) (\<lambda>_.
     emit Fire))))))"

definition refreshArtifacts_try :: "'w env \<Rightarrow> ('w, unit) prog" where
  "refreshArtifacts_try env =
     bindE (refreshArtifacts_auth env) (\<lambda>flow1.
     case flow1 of
       Returned \<Rightarrow> return ()
     | Continue \<Rightarrow>
         bindE (refreshArtifacts_workspace env) (\<lambda>flow2.
         case flow2 of
           Returned \<Rightarrow> return ()
         | Continue \<Rightarrow> refreshArtifacts_ready env))"

text \<open>The \<open>catch\<close> block, lines 157-169.\<close>

definition refreshArtifacts_catch :: "'w env \<Rightarrow> error \<Rightarrow> ('w, unit) prog" where
  "refreshArtifacts_catch env message =
     bindE
       (if includes_str message ''401'' then
          bindE (call ClearToken (clearToken env)) (\<lambda>_.
          bindE (modify (\<lambda>p. p\<lparr>state := LoggedOut\<rparr>)) (\<lambda>_.
          modify (\<lambda>p. p\<lparr>stateDetail := SessionExpired\<rparr>)))
        else
          bindE (modify (\<lambda>p. p\<lparr>state := LoggedOut\<rparr>)) (\<lambda>_.
          modify (\<lambda>p. p\<lparr>stateDetail := RequestError\<rparr>)))
       (\<lambda>_.
     bindE (pushContext env) (\<lambda>_.
     emit Fire))"

definition refreshArtifacts :: "'w env \<Rightarrow> ('w, unit) prog" where
  "refreshArtifacts env =
     bindE (modify (\<lambda>p. p\<lparr>artifacts := []\<rparr>)) (\<lambda>_.
     bindE (modify (\<lambda>p. p\<lparr>stateDetail := NoneDetail\<rparr>)) (\<lambda>_.
     bindE (modify (\<lambda>p. p\<lparr>localBinaries := []\<rparr>)) (\<lambda>_.
     bindE (call GetWorkspaceRoot (getWorkspaceRoot env)) (\<lambda>root.
     bindE (modify (\<lambda>p. p\<lparr>workspaceRoot := root\<rparr>)) (\<lambda>_.
     catchE (refreshArtifacts_try env) (refreshArtifacts_catch env))))))"

section \<open>The workflows (lines 221-389)\<close>

definition quoted :: "string \<Rightarrow> string" where
  "quoted s = [CHR 0x27] @ s @ [CHR 0x27]"

definition getCurrentLocalBinaries :: "'w env \<Rightarrow> ('w, LocalBinary list) prog" where
  "getCurrentLocalBinaries env =
     bindE (call GetWorkspaceRoot (getWorkspaceRoot env)) (\<lambda>root.
     case root of
       None \<Rightarrow> return []
     | Some r \<Rightarrow>
         if r = [] then return []
         else
           bindE (callE (HasCargoToml r) (hasCargoToml env r)) (\<lambda>has.
           if \<not> has then return []
           else
             bindE (modify (\<lambda>p. p\<lparr>workspaceRoot := root\<rparr>)) (\<lambda>_.
             bindE (callE (ListLocalBinaries r) (listLocalBinaries env r)) (\<lambda>bins.
             bindE (modify (\<lambda>p. p\<lparr>localBinaries := bins\<rparr>)) (\<lambda>_.
             getField localBinaries)))))"

text \<open>\<open>note && note.trim().length > 0 ? note.trim() : null\<close>.\<close>

definition noteOrNull :: "'w env \<Rightarrow> string option \<Rightarrow> string option" where
  "noteOrNull env note =
     (case note of
        None \<Rightarrow> None
      | Some n \<Rightarrow> if n \<noteq> [] \<and> length (trim env n) > 0 then Some (trim env n) else None)"

definition uploadedMessage :: "nat \<Rightarrow> LocalBinary \<Rightarrow> string" where
  "uploadedMessage artifact_id bin =
     ''Artifact uploaded: #'' @ string_of_nat artifact_id @ '' from '' @ quoted (bin_name bin)"

definition uploadFromLocalBinary :: "'w env \<Rightarrow> LocalBinary \<Rightarrow> string \<Rightarrow> ('w, unit) prog" where
  "uploadFromLocalBinary env bin defaultName =
     bindE (callE (BuildBinary (bin_rootPath bin) (bin_name bin))
              (buildBinary env (bin_rootPath bin) (bin_name bin))) (\<lambda>_.
     let elfPath = artifactOutputPath env (bin_rootPath bin) (bin_name bin) in
     bindE (call (ExistsSync elfPath) (existsSync env elfPath)) (\<lambda>exists.
     if \<not> exists then throw (Error (''ELF not found after build: '' @ elfPath))
     else
     bindE (call (ShowInputBox ''Artifact Name'' defaultName)
              (showInputBox env ''Artifact Name'' defaultName)) (\<lambda>name.
     case name of
       None \<Rightarrow> return ()
     | Some nm \<Rightarrow>
     if nm = [] then return ()
     else
     bindE (call (ShowInputBox ''Artifact Note (optional)'' [])
              (showInputBox env ''Artifact Note (optional)'' [])) (\<lambda>note.
     bindE (call DefaultArtifactTarget (defaultArtifactTarget env)) (\<lambda>target.
     bindE (callE (ReadFileSync elfPath) (readFileSync env elfPath)) (\<lambda>bytes.
     bindE (getField token) (\<lambda>tok.
     let request = \<lparr>up_name = nm, up_note = noteOrNull env note, up_target = target,
                     up_elf_base64 = toBase64 env bytes\<rparr> in
     bindE (callE (UploadArtifact request tok) (uploadArtifact env request tok)) (\<lambda>artifact_id.
     emit (ShowInformationMessage (uploadedMessage artifact_id bin))))))))))"

definition buildBinaryItem :: "'w env \<Rightarrow> Node option \<Rightarrow> ('w, unit) prog" where
  "buildBinaryItem env item =
     (case item of
        Some (LocalBin bin) \<Rightarrow>
          bindE (callE (BuildBinary (bin_rootPath bin) (bin_name bin))
                   (buildBinary env (bin_rootPath bin) (bin_name bin))) (\<lambda>_.
          emit (ShowInformationMessage (''Built binary '' @ quoted (bin_name bin))))
      | _ \<Rightarrow> return ())"

definition revealElfPath :: "'w env \<Rightarrow> Node option \<Rightarrow> ('w, unit) prog" where
  "revealElfPath env item =
     (case item of
        Some (LocalBin bin) \<Rightarrow>
          let elfPath = artifactOutputPath env (bin_rootPath bin) (bin_name bin) in
          bindE (call (ExistsSync elfPath) (existsSync env elfPath)) (\<lambda>exists.
          if \<not> exists then
            throw (Error (''ELF not found: '' @ elfPath @ ''. Build the binary first.''))
          else callE (RevealFileInOS elfPath) (revealFileInOS env elfPath))
      | _ \<Rightarrow> return ())"

definition buildAndUploadBinary :: "'w env \<Rightarrow> Node option \<Rightarrow> ('w, unit) prog" where
  "buildAndUploadBinary env item =
     (case item of
        Some (LocalBin bin) \<Rightarrow>
          bindE (uploadFromLocalBinary env bin (bin_name bin)) (\<lambda>_.
          refreshArtifacts env)
      | _ \<Rightarrow> return ())"

definition quickPickItems :: "LocalBinary list \<Rightarrow> quickPickItem list" where
  "quickPickItems bins =
     map (\<lambda>bin. \<lparr>qp_label = bin_name bin,
                  qp_description = (case bin_sourcePath bin of None \<Rightarrow> bin_rootPath bin | Some sp \<Rightarrow> sp),
                  qp_bin = bin\<rparr>) bins"

text \<open>The texts \<open>replaceArtifact\<close> shows.\<close>

definition replaceTitle :: "ArtifactSummary \<Rightarrow> string" where
  "replaceTitle artifact =
     ''Replace artifact '' @ quoted (art_name artifact) @ '' with local binary''"

definition replacedMessage :: "ArtifactSummary \<Rightarrow> string" where
  "replacedMessage artifact =
     ''Replaced artifact '' @ quoted (art_name artifact) @
     '' by uploading new build and deleting #'' @ string_of_nat (art_id artifact)"

definition deleteFailedWarning :: "ArtifactSummary \<Rightarrow> error \<Rightarrow> string" where
  "deleteFailedWarning artifact error =
     ''Uploaded replacement, but failed to delete old artifact #'' @
     string_of_nat (art_id artifact) @ '': '' @ error"

definition replaceArtifact :: "'w env \<Rightarrow> Node option \<Rightarrow> ('w, unit) prog" where
  "replaceArtifact env item =
     (case item of
        Some (RemoteArtifact artifact) \<Rightarrow>
          if \<not> art_owned_by_me artifact then
            throw (Error ''You can only replace artifacts you own.'')
          else
          bindE (getCurrentLocalBinaries env) (\<lambda>bins.
          if length bins = 0 then
            throw (Error ''No local binaries available in the current bot workspace.'')
          else
          bindE (call (ShowQuickPick (quickPickItems bins) (replaceTitle artifact))
                   (showQuickPick env (quickPickItems bins) (replaceTitle artifact))) (\<lambda>picked.
          case picked of
            None \<Rightarrow> return ()
          | Some pick \<Rightarrow>
          bindE (uploadFromLocalBinary env (qp_bin pick) (art_name artifact)) (\<lambda>_.
          bindE (getField token) (\<lambda>tok.
          bindE
            (catchE
               (bindE (callE (DeleteArtifact (art_id artifact) tok)
                        (deleteArtifact_api env (art_id artifact) tok)) (\<lambda>_.
                emit (ShowInformationMessage (replacedMessage artifact))))
               (\<lambda>error.
                emit (ShowWarningMessage (deleteFailedWarning artifact error))))
            (\<lambda>_.
          refreshArtifacts env)))))
      | _ \<Rightarrow> return ())"

text \<open>The question \<open>deleteArtifact\<close> asks; its one button is \<open>Delete\<close>.\<close>

definition deleteQuestion :: "ArtifactSummary \<Rightarrow> string" where
  "deleteQuestion artifact =
     ''Delete artifact '' @ quoted (art_name artifact) @
     '' (#'' @ string_of_nat (art_id artifact) @ '')?''"

definition deleteArtifact :: "'w env \<Rightarrow> Node option \<Rightarrow> ('w, unit) prog" where
  "deleteArtifact env item =
     (case item of
        Some (RemoteArtifact artifact) \<Rightarrow>
          if \<not> art_owned_by_me artifact then
            throw (Error ''You can only delete artifacts you own.'')
          else
          bindE (call (ShowWarningModal (deleteQuestion artifact) ''Delete'')
                   (showWarningModal env (deleteQuestion artifact) ''Delete'')) (\<lambda>confirmed.
          if confirmed \<noteq> Some ''Delete'' then return ()
          else
          bindE (getField token) (\<lambda>tok.
          bindE (callE (DeleteArtifact (art_id artifact) tok)
                   (deleteArtifact_api env (art_id artifact) tok)) (\<lambda>_.
          bindE (emit (ShowInformationMessage
                   (''Deleted artifact '' @ quoted (art_name artifact) @
                    '' (#'' @ string_of_nat (art_id artifact) @ '')''))) (\<lambda>_.
          refreshArtifacts env))))
      | _ \<Rightarrow> return ())"

definition toggleVisibility :: "'w env \<Rightarrow> Node option \<Rightarrow> ('w, unit) prog" where
  "toggleVisibility env item =
     (case item of
        Some (RemoteArtifact artifact) \<Rightarrow>
          if \<not> art_owned_by_me artifact then
            throw (Error ''You can only change visibility of artifacts you own.'')
          else
          let nextPublic = \<not> art_is_public artifact in
          bindE (getField token) (\<lambda>tok.
          bindE (callE (UpdateArtifactVisibility (art_id artifact) nextPublic tok)
                   (updateArtifactVisibility env (art_id artifact) nextPublic tok)) (\<lambda>_.
          bindE (emit (ShowInformationMessage
                   (''Artifact '' @ quoted (art_name artifact) @ '' is now '' @
                    (if nextPublic then ''public'' else ''private'')))) (\<lambda>_.
          refreshArtifacts env)))
      | _ \<Rightarrow> return ())"

section \<open>What a refresh publishes\<close>

text \<open>
  The events of one publication of the provider \<open>p\<close>: \<open>pushContext\<close> followed by the
  change event.
\<close>

definition publication :: "'w env \<Rightarrow> RaceHubViewProvider \<Rightarrow> event list" where
  "publication env p =
     [SetContext ''racehub.state'' (StateValue (state p)),
      SetContext ''racehub.stateDetail'' (DetailValue (stateDetail p)),
      SetContext ''racehub.binSourcePaths'' (PathsValue (binSourcePaths env (localBinaries p) [])),
      Fire]"

fun isPublish :: "event \<Rightarrow> bool" where
  "isPublish (SetContext k v) = True"
| "isPublish Fire = True"
| "isPublish ev = False"

fun isWorkspaceInspection :: "event \<Rightarrow> bool" where
  "isWorkspaceInspection (HasCargoToml r) = True"
| "isWorkspaceInspection (ListLocalBinaries r) = True"
| "isWorkspaceInspection ev = False"

fun isArtifactList :: "event \<Rightarrow> bool" where
  "isArtifactList (ListArtifacts t) = True"
| "isArtifactList ev = False"

text \<open>The calls a refresh makes to find out where it stands.\<close>

fun isProbe :: "event \<Rightarrow> bool" where
  "isProbe GetWorkspaceRoot = True"
| "isProbe FetchCapabilities = True"
| "isProbe ReadToken = True"
| "isProbe (HasCargoToml r) = True"
| "isProbe (ListLocalBinaries r) = True"
| "isProbe (ListArtifacts t) = True"
| "isProbe ev = False"

text \<open>A list of events without a call of the artifact-list endpoint.\<close>

definition noList :: "event list \<Rightarrow> bool" where
  "noList t = list_all (\<lambda>ev. \<not> isArtifactList ev) t"

text \<open>
  The two ways line 135 finds no manifest: the root is falsy, in which case \<open>hasCargoToml\<close>
  is not called and the world stays \<open>w1\<close>, or \<open>hasCargoToml\<close> answers false and leaves
  \<open>w2\<close>.
\<close>

definition manifestAbsent :: "'w env \<Rightarrow> string option \<Rightarrow> 'w \<Rightarrow> 'w \<Rightarrow> bool" where
  "manifestAbsent env root w1 w2 =
     (case root of
        None \<Rightarrow> w2 = w1
      | Some r \<Rightarrow> if r = [] then w2 = w1 else hasCargoToml env r w1 = (Inr False, w2))"

text \<open>The manifest is there and \<open>listLocalBinaries\<close> finds nothing, leaving \<open>w3\<close>.\<close>

definition noBinariesFound :: "'w env \<Rightarrow> string option \<Rightarrow> 'w \<Rightarrow> 'w \<Rightarrow> bool" where
  "noBinariesFound env root w1 w3 =
     (case root of
        None \<Rightarrow> False
      | Some r \<Rightarrow>
          r \<noteq> [] \<and>
          (case hasCargoToml env r w1 of
             (Inr True, w2) \<Rightarrow> listLocalBinaries env r w2 = (Inr [], w3)
           | _ \<Rightarrow> False))"

text \<open>The provider as lines 115-118 leave it, before the \<open>try\<close> block.\<close>

definition cleared :: "RaceHubViewProvider \<Rightarrow> string option \<Rightarrow> RaceHubViewProvider" where
  "cleared p root =
     p\<lparr>artifacts := [], stateDetail := NoneDetail, localBinaries := [], workspaceRoot := root\<rparr>"

section \<open>Items and calls the claims speak of\<close>

text \<open>An item whose node is a local binary; an item whose node is a remote artifact.\<close>

fun isLocalBinItem :: "Node option \<Rightarrow> bool" where
  "isLocalBinItem (Some (LocalBin bin)) = True"
| "isLocalBinItem item = False"

fun isRemoteArtifactItem :: "Node option \<Rightarrow> bool" where
  "isRemoteArtifactItem (Some (RemoteArtifact artifact)) = True"
| "isRemoteArtifactItem item = False"

fun isUpload :: "event \<Rightarrow> bool" where
  "isUpload (UploadArtifact request t) = True"
| "isUpload ev = False"

text \<open>A provider whose detail is one of its state's.\<close>

definition legalStatus :: "RaceHubViewProvider \<Rightarrow> bool" where
  "legalStatus p = legalDetail (state p) (stateDetail p)"

text \<open>A method that leaves a legal status legal, however the collaborators answer.\<close>

definition keepsLegal :: "('w, 'a) prog \<Rightarrow> bool" where
  "keepsLegal m = (\<forall>p w. legalStatus p \<longrightarrow> legalStatus (provider (m (p, w))))"

section \<open>A test double for the collaborators\<close>

text \<open>
  A small world to run the methods in: a session store, a workspace, a registry that
  appends what is uploaded and drops what is deleted, fixed operator answers, and a
  switch for each failure.
\<close>

record stubWorld =
  sw_authRequired :: bool
  sw_session :: "string option"
  sw_root :: "string option"
  sw_manifest :: bool
  sw_bins :: "LocalBinary list"
  sw_registry :: "ArtifactSummary list"
  sw_nextId :: nat
  sw_elfExists :: bool
  sw_failCapabilities :: "error option"
  sw_failList :: "error option"
  sw_failUpload :: "error option"
  sw_failDelete :: "error option"
  sw_nameAnswer :: "string option"
  sw_noteAnswer :: "string option"
  sw_pickFirst :: bool
  sw_confirmAnswer :: "string option"

definition stubEnv :: "stubWorld env" where
  "stubEnv =
     \<lparr>getWorkspaceRoot = (\<lambda>w. (sw_root w, w)),
      hasCargoToml = (\<lambda>r w. (Inr (sw_manifest w), w)),
      listLocalBinaries = (\<lambda>r w. (Inr (sw_bins w), w)),
      artifactOutputPath = (\<lambda>root name. root @ ''/target/'' @ name),
      fetchCapabilities = (\<lambda>w.
        case sw_failCapabilities w of
          Some err \<Rightarrow> (Inl err, w)
        | None \<Rightarrow> (Inr \<lparr>auth_required = sw_authRequired w\<rparr>, w)),
      listArtifacts = (\<lambda>tok w.
        case sw_failList w of
          Some err \<Rightarrow> (Inl err, w)
        | None \<Rightarrow> (Inr (sw_registry w), w)),
      uploadArtifact = (\<lambda>req tok w.
        case sw_failUpload w of
          Some err \<Rightarrow> (Inl err, w)
        | None \<Rightarrow>
            (Inr (sw_nextId w),
             w\<lparr>sw_registry := sw_registry w @
                   [\<lparr>art_id = sw_nextId w, art_name = up_name req, art_owner_username = ''me'',
                     art_is_public = False, art_owned_by_me = True\<rparr>],
               sw_nextId := Suc (sw_nextId w)\<rparr>)),
      deleteArtifact_api = (\<lambda>i tok w.
        case sw_failDelete w of
          Some err \<Rightarrow> (Inl err, w)
        | None \<Rightarrow> (Inr (), w\<lparr>sw_registry := filter (\<lambda>a. art_id a \<noteq> i) (sw_registry w)\<rparr>)),
      updateArtifactVisibility = (\<lambda>i pub tok w.
        (Inr (),
         w\<lparr>sw_registry :=
             map (\<lambda>a. if art_id a = i then a\<lparr>art_is_public := pub\<rparr> else a) (sw_registry w)\<rparr>)),
      readToken = (\<lambda>w. (Inr (sw_session w), w)),
      clearToken = (\<lambda>w. ((), w\<lparr>sw_session := None\<rparr>)),
      buildBinary = (\<lambda>root name w. (Inr (), w)),
      defaultArtifactTarget = (\<lambda>w. (''riscv32'', w)),
      existsSync = (\<lambda>path w. (sw_elfExists w, w)),
      readFileSync = (\<lambda>path w. (Inr ''ELF'', w)),
      toBase64 = (\<lambda>bytes. bytes),
      trim = (\<lambda>s. s),
      normalize = (\<lambda>s. s),
      uriFsPath = (\<lambda>s. s),
      uriPath = (\<lambda>s. s),
      showInputBox = (\<lambda>title val w.
        (if title = ''Artifact Name'' then sw_nameAnswer w else sw_noteAnswer w, w)),
      showQuickPick = (\<lambda>items title w.
        (case items of [] \<Rightarrow> None | x # xs \<Rightarrow> if sw_pickFirst w then Some x else None, w)),
      showWarningModal = (\<lambda>message button w. (sw_confirmAnswer w, w)),
      revealFileInOS = (\<lambda>path w. (Inr (), w))\<rparr>"

definition car :: LocalBinary where
  "car = \<lparr>bin_name = ''car'', bin_rootPath = ''/ws'', bin_sourcePath = Some ''/ws/src/bin/car.rs''\<rparr>"

definition oldArtifact :: ArtifactSummary where
  "oldArtifact =
     \<lparr>art_id = 7, art_name = ''car'', art_owner_username = ''me'', art_is_public = False,
      art_owned_by_me = True\<rparr>"

definition foreignArtifact :: ArtifactSummary where
  "foreignArtifact =
     \<lparr>art_id = 9, art_name = ''rival'', art_owner_username = ''you'', art_is_public = True,
      art_owned_by_me = False\<rparr>"

definition newArtifact :: ArtifactSummary where
  "newArtifact =
     \<lparr>art_id = 42, art_name = ''car'', art_owner_username = ''me'', art_is_public = False,
      art_owned_by_me = True\<rparr>"

text \<open>
  A standalone server (no login), a workspace with the binary \<open>car\<close>, a registry holding
  one artifact of the operator and one of somebody else; every call succeeds and the
  operator accepts every prompt.
\<close>

definition stubWorld0 :: stubWorld where
  "stubWorld0 =
     \<lparr>sw_authRequired = False, sw_session = None, sw_root = Some ''/ws'', sw_manifest = True,
      sw_bins = [car], sw_registry = [oldArtifact, foreignArtifact], sw_nextId = 42,
      sw_elfExists = True, sw_failCapabilities = None, sw_failList = None,
      sw_failUpload = None, sw_failDelete = None, sw_nameAnswer = Some ''car'',
      sw_noteAnswer = Some [], sw_pickFirst = True, sw_confirmAnswer = Some ''Delete''\<rparr>"

text \<open>A provider that a successful refresh in \<open>stubWorld0\<close> has left ready.\<close>

definition readyProvider :: RaceHubViewProvider where
  "readyProvider =
     \<lparr>state = Ready, stateDetail = NoneDetail, token = None, workspaceRoot = Some ''/ws'',
      localBinaries = [car], artifacts = [oldArtifact, foreignArtifact]\<rparr>"

section \<open>Running the parts\<close>

lemmas prog_defs =
  return_def throw_def bindE_def catchE_def getField_def modify_def emit_def call_def callE_def

lemma pushContext_run:
  "pushContext env (p, w) = (Inr (), (p, w), butlast (publication env p))"
  by (simp add: pushContext_def pushBinSourcePathsContext_def prog_defs publication_def)

lemma auth_run:
  "refreshArtifacts_auth env (p, w) =
     (case fetchCapabilities env w of
        (Inl err, w1) \<Rightarrow> (Inl err, (p, w1), [FetchCapabilities])
      | (Inr caps, w1) \<Rightarrow>
          if auth_required caps then
            (case readToken env w1 of
               (Inl err, w2) \<Rightarrow> (Inl err, (p, w2), [FetchCapabilities, ReadToken])
             | (Inr tok, w2) \<Rightarrow>
                 if falsy tok then
                   (Inr Returned, (p\<lparr>token := tok, state := LoggedOut, stateDetail := NotLoggedIn\<rparr>, w2),
                    [FetchCapabilities, ReadToken] @
                    publication env (p\<lparr>token := tok, state := LoggedOut, stateDetail := NotLoggedIn\<rparr>))
                 else (Inr Continue, (p\<lparr>token := tok\<rparr>, w2), [FetchCapabilities, ReadToken]))
          else (Inr Continue, (p\<lparr>token := None\<rparr>, w1), [FetchCapabilities]))"
  by (simp add: refreshArtifacts_auth_def prog_defs pushContext_run publication_def
      split: prod.splits sum.splits)

lemma workspace_run:
  "refreshArtifacts_workspace env (p, w) =
     (case workspaceRoot p of
        None \<Rightarrow> (Inr Returned, (p\<lparr>state := NeedsWorkspace, stateDetail := WorkspaceMissing\<rparr>, w),
                  publication env (p\<lparr>state := NeedsWorkspace, stateDetail := WorkspaceMissing\<rparr>))
      | Some r \<Rightarrow>
          if r = [] then
            (Inr Returned, (p\<lparr>state := NeedsWorkspace, stateDetail := WorkspaceMissing\<rparr>, w),
             publication env (p\<lparr>state := NeedsWorkspace, stateDetail := WorkspaceMissing\<rparr>))
          else
            (case hasCargoToml env r w of
               (Inl err, w1) \<Rightarrow> (Inl err, (p, w1), [HasCargoToml r])
             | (Inr has, w1) \<Rightarrow>
                 if \<not> has then
                   (Inr Returned, (p\<lparr>state := NeedsWorkspace, stateDetail := WorkspaceMissing\<rparr>, w1),
                    [HasCargoToml r] @
                    publication env (p\<lparr>state := NeedsWorkspace, stateDetail := WorkspaceMissing\<rparr>))
                 else
                   (case listLocalBinaries env r w1 of
                      (Inl err, w2) \<Rightarrow> (Inl err, (p, w2), [HasCargoToml r, ListLocalBinaries r])
                    | (Inr bins, w2) \<Rightarrow>
                        if bins = [] then
                          (Inr Returned,
                           (p\<lparr>localBinaries := [], state := NeedsWorkspace, stateDetail := NoBinaries\<rparr>, w2),
                           [HasCargoToml r, ListLocalBinaries r] @
                           publication env (p\<lparr>localBinaries := [], state := NeedsWorkspace, stateDetail := NoBinaries\<rparr>))
                        else
                          (Inr Continue, (p\<lparr>localBinaries := bins\<rparr>, w2),
                           [HasCargoToml r, ListLocalBinaries r]))))"
  by (simp add: refreshArtifacts_workspace_def prog_defs pushContext_run publication_def
      split: prod.splits sum.splits option.splits)

lemma ready_run:
  "refreshArtifacts_ready env (p, w) =
     (case listArtifacts env (token p) w of
        (Inl err, w1) \<Rightarrow>
          (Inl err, (p\<lparr>state := Ready, stateDetail := NoneDetail\<rparr>, w1), [ListArtifacts (token p)])
      | (Inr arts, w1) \<Rightarrow>
          (Inr (), (p\<lparr>state := Ready, stateDetail := NoneDetail, artifacts := arts\<rparr>, w1),
           [ListArtifacts (token p)] @
           publication env (p\<lparr>state := Ready, stateDetail := NoneDetail, artifacts := arts\<rparr>)))"
  by (simp add: refreshArtifacts_ready_def prog_defs pushContext_run publication_def
      split: prod.splits sum.splits)

lemma catch_run:
  "refreshArtifacts_catch env message (p, w) =
     (if includes_str message ''401'' then
        (Inr (), (p\<lparr>state := LoggedOut, stateDetail := SessionExpired\<rparr>, snd (clearToken env w)),
         [ClearToken] @ publication env (p\<lparr>state := LoggedOut, stateDetail := SessionExpired\<rparr>))
      else
        (Inr (), (p\<lparr>state := LoggedOut, stateDetail := RequestError\<rparr>, w),
         publication env (p\<lparr>state := LoggedOut, stateDetail := RequestError\<rparr>)))"
  by (simp add: refreshArtifacts_catch_def prog_defs pushContext_run publication_def
      split: prod.splits sum.splits)

lemma try_run:
  "refreshArtifacts_try env (p, w) =
     (case refreshArtifacts_auth env (p, w) of
        (Inl err, s1, t1) \<Rightarrow> (Inl err, s1, t1)
      | (Inr Returned, s1, t1) \<Rightarrow> (Inr (), s1, t1)
      | (Inr Continue, s1, t1) \<Rightarrow>
          (case refreshArtifacts_workspace env s1 of
             (Inl err, s2, t2) \<Rightarrow> (Inl err, s2, t1 @ t2)
           | (Inr Returned, s2, t2) \<Rightarrow> (Inr (), s2, t1 @ t2)
           | (Inr Continue, s2, t2) \<Rightarrow>
               (case refreshArtifacts_ready env s2 of (r, s3, t3) \<Rightarrow> (r, s3, t1 @ t2 @ t3))))"
  by (simp add: refreshArtifacts_try_def bindE_def return_def
      split: prod.splits sum.splits flow.splits)

lemma refresh_run:
  "refreshArtifacts env (p, w) =
     (case getWorkspaceRoot env w of
        (root, w0) \<Rightarrow>
          (case refreshArtifacts_try env (cleared p root, w0) of
             (Inl message, s1, t1) \<Rightarrow>
               (case refreshArtifacts_catch env message s1 of
                  (r, s2, t2) \<Rightarrow> (r, s2, GetWorkspaceRoot # t1 @ t2))
           | (Inr u, s1, t1) \<Rightarrow> (Inr u, s1, GetWorkspaceRoot # t1)))"
  by (simp add: refreshArtifacts_def cleared_def bindE_def catchE_def modify_def call_def
      split: prod.splits sum.splits)

lemma auth_summary:
  assumes "refreshArtifacts_auth env (p, w) = (r, (p', w'), t)"
  shows "(case r of
            Inr Returned \<Rightarrow> legalDetail (state p') (stateDetail p') \<and>
               (\<exists>pre. t = pre @ publication env p' \<and> list_all isProbe pre)
          | _ \<Rightarrow> list_all isProbe t)"
  using assms unfolding auth_run
  by (auto split: prod.splits sum.splits if_splits)

lemma workspace_summary:
  assumes "refreshArtifacts_workspace env (p, w) = (r, (p', w'), t)"
  shows "(case r of
            Inr Returned \<Rightarrow> legalDetail (state p') (stateDetail p') \<and>
               (\<exists>pre. t = pre @ publication env p' \<and> list_all isProbe pre)
          | _ \<Rightarrow> list_all isProbe t)"
  using assms unfolding workspace_run
  by (auto split: prod.splits sum.splits if_splits option.splits)

lemma ready_summary:
  assumes "refreshArtifacts_ready env (p, w) = (r, (p', w'), t)"
  shows "(case r of
            Inr u \<Rightarrow> legalDetail (state p') (stateDetail p') \<and>
               (\<exists>pre. t = pre @ publication env p' \<and> list_all isProbe pre)
          | Inl err \<Rightarrow> list_all isProbe t)"
  using assms unfolding ready_run
  by (auto split: prod.splits sum.splits if_splits option.splits)

lemma try_summary:
  assumes "refreshArtifacts_try env (p, w) = (r, (p', w'), t)"
  shows "(case r of
            Inr u \<Rightarrow> legalDetail (state p') (stateDetail p') \<and>
               (\<exists>pre. t = pre @ publication env p' \<and> list_all isProbe pre)
          | Inl err \<Rightarrow> list_all isProbe t)"
proof -
  obtain r1 p1 w1 t1 where a: "refreshArtifacts_auth env (p, w) = (r1, (p1, w1), t1)"
    by (metis prod.exhaust)
  note sa = auth_summary [OF a]
  show ?thesis
  proof (cases r1)
    case (Inl err)
    with assms a sa show ?thesis by (auto simp: try_run)
  next
    case (Inr f1)
    show ?thesis
    proof (cases f1)
      case Returned
      with Inr assms a sa show ?thesis by (auto simp: try_run)
    next
      case Continue
      obtain r2 p2 w2 t2 where b: "refreshArtifacts_workspace env (p1, w1) = (r2, (p2, w2), t2)"
        by (metis prod.exhaust)
      note sb = workspace_summary [OF b]
      show ?thesis
      proof (cases r2)
        case (Inl err)
        with Continue Inr assms a sa b sb show ?thesis by (auto simp: try_run)
      next
        case f2: (Inr f2)
        show ?thesis
        proof (cases f2)
          case Returned
          with f2 Continue Inr assms a sa b sb show ?thesis
            by (auto simp: try_run intro: exI [where x = "t1 @ pre" for pre])
        next
          case c2: Continue
          obtain r3 p3 w3 t3 where c: "refreshArtifacts_ready env (p2, w2) = (r3, (p3, w3), t3)"
            by (metis prod.exhaust)
          note sc = ready_summary [OF c]
          from c2 f2 Continue Inr assms a b c have e: "r = r3" "p' = p3" "w' = w3" "t = t1 @ t2 @ t3"
            by (simp_all add: try_run)
          show ?thesis
          proof (cases r3)
            case (Inl err)
            with e sa sb sc Continue Inr f2 c2 show ?thesis by simp
          next
            case r3: (Inr u)
            with sc obtain pre where "t3 = pre @ publication env p3" "list_all isProbe pre"
              "legalDetail (state p3) (stateDetail p3)" by auto
            with e sa sb Continue Inr f2 c2 r3 show ?thesis
              by (auto intro: exI [where x = "t1 @ t2 @ pre"])
          qed
        qed
      qed
    qed
  qed
qed

lemma noList_simps [simp]:
  "noList []" "noList (ev # t) = (\<not> isArtifactList ev \<and> noList t)"
  "noList (t @ u) = (noList t \<and> noList u)"
  by (simp_all add: noList_def)

lemma noList_publication [simp]: "noList (publication env p)"
  by (simp add: publication_def)

lemma auth_fields:
  assumes "refreshArtifacts_auth env (p, w) = (r, (p', w'), t)"
  shows "localBinaries p' = localBinaries p \<and> artifacts p' = artifacts p \<and>
         workspaceRoot p' = workspaceRoot p \<and> noList t \<and>
         (r = Inr Returned \<longrightarrow> state p' = LoggedOut)"
  using assms unfolding auth_run
  by (auto split: prod.splits sum.splits if_splits)

lemma workspace_fields:
  assumes "refreshArtifacts_workspace env (p, w) = (r, (p', w'), t)"
  shows "artifacts p' = artifacts p \<and> token p' = token p \<and> noList t \<and>
         (case r of
            Inr Returned \<Rightarrow> state p' = NeedsWorkspace \<and>
              (localBinaries p' = localBinaries p \<or> localBinaries p' = [])
          | Inr Continue \<Rightarrow> localBinaries p' \<noteq> []
          | Inl err \<Rightarrow> localBinaries p' = localBinaries p)"
  using assms unfolding workspace_run
  by (auto split: prod.splits sum.splits if_splits option.splits)

lemma ready_fields:
  assumes "refreshArtifacts_ready env (p, w) = (r, (p', w'), t)"
  shows "localBinaries p' = localBinaries p \<and>
         (case r of
            Inr u \<Rightarrow> state p' = Ready \<and> listArtifacts env (token p') w = (Inr (artifacts p'), w')
          | Inl err \<Rightarrow> artifacts p' = artifacts p \<and> \<not> noList t)"
  using assms unfolding ready_run
  by (auto split: prod.splits sum.splits if_splits option.splits)

lemma try_fields:
  assumes run: "refreshArtifacts_try env (p, w) = (r, (p', w'), t)"
    and empty: "localBinaries p = []" "artifacts p = []"
  shows "(case r of
            Inr u \<Rightarrow>
              (state p' = Ready \<and> localBinaries p' \<noteq> [] \<and>
               (\<exists>wl. listArtifacts env (token p') wl = (Inr (artifacts p'), w'))) \<or>
              (state p' \<noteq> Ready \<and> localBinaries p' = [] \<and> artifacts p' = [] \<and> noList t)
          | Inl err \<Rightarrow> artifacts p' = [] \<and> (noList t \<longrightarrow> localBinaries p' = []))"
proof -
  obtain r1 p1 w1 t1 where a: "refreshArtifacts_auth env (p, w) = (r1, (p1, w1), t1)"
    by (metis prod.exhaust)
  note sa = auth_fields [OF a]
  show ?thesis
  proof (cases r1)
    case (Inl err)
    with run a sa empty show ?thesis by (auto simp: try_run)
  next
    case (Inr f1)
    show ?thesis
    proof (cases f1)
      case Returned
      with Inr run a sa empty show ?thesis by (auto simp: try_run)
    next
      case Continue
      obtain r2 p2 w2 t2 where b: "refreshArtifacts_workspace env (p1, w1) = (r2, (p2, w2), t2)"
        by (metis prod.exhaust)
      note sb = workspace_fields [OF b]
      show ?thesis
      proof (cases r2)
        case (Inl err)
        with Continue Inr run a sa b sb empty show ?thesis by (auto simp: try_run)
      next
        case f2: (Inr f2)
        show ?thesis
        proof (cases f2)
          case Returned
          with f2 Continue Inr run a sa b sb empty show ?thesis by (auto simp: try_run)
        next
          case c2: Continue
          obtain r3 p3 w3 t3 where c: "refreshArtifacts_ready env (p2, w2) = (r3, (p3, w3), t3)"
            by (metis prod.exhaust)
          note sc = ready_fields [OF c]
          from c2 f2 Continue Inr run a b c
          have e: "r = r3" "p' = p3" "w' = w3" "t = t1 @ t2 @ t3"
            by (simp_all add: try_run)
          show ?thesis
          proof (cases r3)
            case (Inl err)
            with e sa sb sc Continue Inr f2 c2 empty show ?thesis by simp
          next
            case r3: (Inr u)
            with e sa sb sc Continue Inr f2 c2 empty show ?thesis by auto
          qed
        qed
      qed
    qed
  qed
qed

lemma refresh_same_start:
  "refreshArtifacts env (p\<lparr>localBinaries := bs, artifacts := as, stateDetail := d\<rparr>, w) =
   refreshArtifacts env (p, w)"
  by (simp add: refresh_run cleared_def)

lemma isProbe_neq_ClearToken: "list_all isProbe t \<Longrightarrow> ClearToken \<notin> set t"
  by (induction t) auto

lemma refresh_fields:
  assumes run: "refreshArtifacts env (p, w) = (r, (p', w'), t)"
  shows "(state p' = Ready \<longrightarrow> localBinaries p' \<noteq> [] \<and>
            (\<exists>wl. listArtifacts env (token p') wl = (Inr (artifacts p'), w'))) \<and>
         (state p' \<noteq> Ready \<longrightarrow> artifacts p' = [] \<and> (noList t \<longrightarrow> localBinaries p' = []))"
proof -
  obtain root w0 where g: "getWorkspaceRoot env w = (root, w0)"
    by (metis prod.exhaust)
  obtain r1 p1 w1 t1 where t: "refreshArtifacts_try env (cleared p root, w0) = (r1, (p1, w1), t1)"
    by (metis prod.exhaust)
  have "localBinaries (cleared p root) = []" "artifacts (cleared p root) = []"
    by (simp_all add: cleared_def)
  note st = try_fields [OF t this]
  show ?thesis
  proof (cases r1)
    case (Inl message)
    with st g t run show ?thesis
      by (auto simp: refresh_run catch_run split: if_splits)
  next
    case (Inr u)
    with st g t run show ?thesis
      by (auto simp: refresh_run)
  qed
qed

lemma auth_throws:
  assumes "refreshArtifacts_auth env (p, w) = (Inl message, (p1, w1), t1)"
  shows "(\<exists>wa. fetchCapabilities env wa = (Inl message, w1)) \<or>
         (\<exists>wa. readToken env wa = (Inl message, w1))"
  using assms unfolding auth_run
  by (auto split: prod.splits sum.splits if_splits)

lemma workspace_throws:
  assumes "refreshArtifacts_workspace env (p, w) = (Inl message, (p1, w1), t1)"
  shows "(\<exists>r wa. hasCargoToml env r wa = (Inl message, w1)) \<or>
         (\<exists>r wa. listLocalBinaries env r wa = (Inl message, w1))"
  using assms unfolding workspace_run
  by (auto split: prod.splits sum.splits if_splits option.splits)

lemma ready_throws:
  assumes "refreshArtifacts_ready env (p, w) = (Inl message, (p1, w1), t1)"
  shows "\<exists>tok wa. listArtifacts env tok wa = (Inl message, w1)"
  using assms unfolding ready_run
  by (auto split: prod.splits sum.splits if_splits option.splits)

lemma try_throws:
  assumes run: "refreshArtifacts_try env (p, w) = (Inl message, (p1, w1), t1)"
  shows "(\<exists>wa. fetchCapabilities env wa = (Inl message, w1)) \<or>
         (\<exists>wa. readToken env wa = (Inl message, w1)) \<or>
         (\<exists>r wa. hasCargoToml env r wa = (Inl message, w1)) \<or>
         (\<exists>r wa. listLocalBinaries env r wa = (Inl message, w1)) \<or>
         (\<exists>tok wa. listArtifacts env tok wa = (Inl message, w1))"
proof -
  obtain ra pa wa ta where a: "refreshArtifacts_auth env (p, w) = (ra, (pa, wa), ta)"
    by (metis prod.exhaust)
  show ?thesis
  proof (cases ra)
    case (Inl err)
    with run a have "refreshArtifacts_auth env (p, w) = (Inl message, (p1, w1), t1)"
      by (simp add: try_run)
    from auth_throws [OF this] show ?thesis by blast
  next
    case (Inr f1)
    show ?thesis
    proof (cases f1)
      case Returned
      with Inr run a show ?thesis by (simp add: try_run)
    next
      case Continue
      obtain rb pb wb tb where b: "refreshArtifacts_workspace env (pa, wa) = (rb, (pb, wb), tb)"
        by (metis prod.exhaust)
      show ?thesis
      proof (cases rb)
        case (Inl err)
        with Continue Inr run a b
        have "refreshArtifacts_workspace env (pa, wa) = (Inl message, (p1, w1), tb)"
          by (simp add: try_run)
        from workspace_throws [OF this] show ?thesis by blast
      next
        case f2: (Inr f2)
        show ?thesis
        proof (cases f2)
          case Returned
          with f2 Continue Inr run a b show ?thesis by (simp add: try_run)
        next
          case c2: Continue
          obtain rc pc wc tc where c: "refreshArtifacts_ready env (pb, wb) = (rc, (pc, wc), tc)"
            by (metis prod.exhaust)
          with c2 f2 Continue Inr run a b
          have "refreshArtifacts_ready env (pb, wb) = (Inl message, (p1, w1), tc)"
            by (simp add: try_run)
          from ready_throws [OF this] show ?thesis by blast
        qed
      qed
    qed
  qed
qed

lemma try_rethrows:
  "fetchCapabilities env w = (Inl m, w1) \<Longrightarrow>
     refreshArtifacts_try env (p, w) = (Inl m, (p, w1), [FetchCapabilities])"
  "fetchCapabilities env w = (Inr caps, w1) \<Longrightarrow> auth_required caps \<Longrightarrow>
   readToken env w1 = (Inl m, w2) \<Longrightarrow>
     refreshArtifacts_try env (p, w) = (Inl m, (p, w2), [FetchCapabilities, ReadToken])"
  "refreshArtifacts_auth env (p, w) = (Inr Continue, (p1, wa), t1) \<Longrightarrow>
   workspaceRoot p1 = Some r \<Longrightarrow> r \<noteq> [] \<Longrightarrow> hasCargoToml env r wa = (Inl m, wb) \<Longrightarrow>
     refreshArtifacts_try env (p, w) = (Inl m, (p1, wb), t1 @ [HasCargoToml r])"
  "refreshArtifacts_auth env (p, w) = (Inr Continue, (p1, wa), t1) \<Longrightarrow>
   workspaceRoot p1 = Some r \<Longrightarrow> r \<noteq> [] \<Longrightarrow> hasCargoToml env r wa = (Inr True, wb) \<Longrightarrow>
   listLocalBinaries env r wb = (Inl m, wc) \<Longrightarrow>
     refreshArtifacts_try env (p, w) =
       (Inl m, (p1, wc), t1 @ [HasCargoToml r, ListLocalBinaries r])"
  "refreshArtifacts_auth env (p, w) = (Inr Continue, (p1, wa), t1) \<Longrightarrow>
   workspaceRoot p1 = Some r \<Longrightarrow> r \<noteq> [] \<Longrightarrow> hasCargoToml env r wa = (Inr True, wb) \<Longrightarrow>
   listLocalBinaries env r wb = (Inr bins, wc) \<Longrightarrow> bins \<noteq> [] \<Longrightarrow>
   listArtifacts env (token p1) wc = (Inl m, wd) \<Longrightarrow>
     refreshArtifacts_try env (p, w) =
       (Inl m, (p1\<lparr>localBinaries := bins, state := Ready, stateDetail := NoneDetail\<rparr>, wd),
        t1 @ [HasCargoToml r, ListLocalBinaries r, ListArtifacts (token p1)])"
  by (simp_all add: try_run auth_run workspace_run ready_run)

lemma refresh_summary:
  "\<exists>p' w' pre.
     refreshArtifacts env (p, w) = (Inr (), (p', w'), pre @ publication env p') \<and>
     legalDetail (state p') (stateDetail p') \<and>
     list_all (\<lambda>ev. isProbe ev \<or> ev = ClearToken) pre"
proof -
  obtain root w0 where g: "getWorkspaceRoot env w = (root, w0)"
    by (metis prod.exhaust)
  obtain r1 p1 w1 t1 where t: "refreshArtifacts_try env (cleared p root, w0) = (r1, (p1, w1), t1)"
    by (metis prod.exhaust)
  note st = try_summary [OF t]
  have np: "list_all isProbe xs \<Longrightarrow> list_all (\<lambda>ev. isProbe ev \<or> ev = ClearToken) xs" for xs
    by (induction xs) auto
  show ?thesis
  proof (cases r1)
    case (Inl message)
    with st have pr: "list_all isProbe t1" by simp
    show ?thesis
    proof (cases "includes_str message ''401''")
      case True
      let ?p = "p1\<lparr>state := LoggedOut, stateDetail := SessionExpired\<rparr>"
      from True Inl g t have "refreshArtifacts env (p, w) =
          (Inr (), (?p, snd (clearToken env w1)), (GetWorkspaceRoot # t1 @ [ClearToken]) @ publication env ?p)"
        by (simp add: refresh_run catch_run)
      moreover have "legalDetail (state ?p) (stateDetail ?p)" by simp
      moreover have "list_all (\<lambda>ev. isProbe ev \<or> ev = ClearToken) (GetWorkspaceRoot # t1 @ [ClearToken])"
        using np [OF pr] by simp
      ultimately show ?thesis by blast
    next
      case False
      let ?p = "p1\<lparr>state := LoggedOut, stateDetail := RequestError\<rparr>"
      from False Inl g t have "refreshArtifacts env (p, w) =
          (Inr (), (?p, w1), (GetWorkspaceRoot # t1) @ publication env ?p)"
        by (simp add: refresh_run catch_run)
      moreover have "legalDetail (state ?p) (stateDetail ?p)" by simp
      moreover have "list_all (\<lambda>ev. isProbe ev \<or> ev = ClearToken) (GetWorkspaceRoot # t1)"
        using np [OF pr] by simp
      ultimately show ?thesis by blast
    qed
  next
    case (Inr u)
    with st obtain pre where pre: "t1 = pre @ publication env p1" "list_all isProbe pre"
      "legalDetail (state p1) (stateDetail p1)" by auto
    from Inr g t pre have "refreshArtifacts env (p, w) =
        (Inr (), (p1, w1), (GetWorkspaceRoot # pre) @ publication env p1)"
      by (simp add: refresh_run)
    moreover have "list_all (\<lambda>ev. isProbe ev \<or> ev = ClearToken) (GetWorkspaceRoot # pre)"
      using np [OF pre(2)] by simp
    ultimately show ?thesis using pre(3) by blast
  qed
qed

section \<open>Running the workflows\<close>

lemma getCurrent_run:
  "getCurrentLocalBinaries env (p, w) =
     (case getWorkspaceRoot env w of
        (None, w0) \<Rightarrow> (Inr [], (p, w0), [GetWorkspaceRoot])
      | (Some r, w0) \<Rightarrow>
          if r = [] then (Inr [], (p, w0), [GetWorkspaceRoot])
          else
            (case hasCargoToml env r w0 of
               (Inl err, w1) \<Rightarrow> (Inl err, (p, w1), [GetWorkspaceRoot, HasCargoToml r])
             | (Inr has, w1) \<Rightarrow>
                 if \<not> has then (Inr [], (p, w1), [GetWorkspaceRoot, HasCargoToml r])
                 else
                   (case listLocalBinaries env r w1 of
                      (Inl err, w2) \<Rightarrow>
                        (Inl err, (p\<lparr>workspaceRoot := Some r\<rparr>, w2),
                         [GetWorkspaceRoot, HasCargoToml r, ListLocalBinaries r])
                    | (Inr bins, w2) \<Rightarrow>
                        (Inr bins, (p\<lparr>workspaceRoot := Some r, localBinaries := bins\<rparr>, w2),
                         [GetWorkspaceRoot, HasCargoToml r, ListLocalBinaries r]))))"
  by (simp add: getCurrentLocalBinaries_def prog_defs split: prod.splits sum.splits option.splits)

lemma getCurrent_summary:
  assumes "getCurrentLocalBinaries env (p, w) = (r, (p', w'), t)"
  shows "state p' = state p \<and> stateDetail p' = stateDetail p \<and> token p' = token p \<and>
         artifacts p' = artifacts p \<and> list_all (\<lambda>ev. \<not> isNetworkCall ev) t"
  using assms unfolding getCurrent_run
  by (auto split: prod.splits sum.splits option.splits if_splits)

lemma replace_run:
  assumes "art_owned_by_me a"
    and "getCurrentLocalBinaries env (p, w) = (Inr bins, (p1, w1), t1)"
    and "bins \<noteq> []"
    and "showQuickPick env (quickPickItems bins) (replaceTitle a) w1 = (Some pick, w2)"
    and "uploadFromLocalBinary env (qp_bin pick) (art_name a) (p1, w2) = (Inr (), (p2, w3), t3)"
  shows "replaceArtifact env (Some (RemoteArtifact a)) (p, w) =
     (case deleteArtifact_api env (art_id a) (token p2) w3 of
        (Inl err, w4) \<Rightarrow>
          (case refreshArtifacts env (p2, w4) of
             (r, s, t5) \<Rightarrow>
               (r, s, t1 @ [ShowQuickPick (quickPickItems bins) (replaceTitle a)] @ t3 @
                  [DeleteArtifact (art_id a) (token p2),
                   ShowWarningMessage (deleteFailedWarning a err)] @ t5))
      | (Inr u, w4) \<Rightarrow>
          (case refreshArtifacts env (p2, w4) of
             (r, s, t5) \<Rightarrow>
               (r, s, t1 @ [ShowQuickPick (quickPickItems bins) (replaceTitle a)] @ t3 @
                  [DeleteArtifact (art_id a) (token p2),
                   ShowInformationMessage (replacedMessage a)] @ t5)))"
  using assms
  by (simp add: replaceArtifact_def prog_defs split: prod.splits sum.splits)

lemma delete_run:
  assumes "art_owned_by_me a"
    and "showWarningModal env (deleteQuestion a) ''Delete'' w = (Some ''Delete'', w1)"
  shows "deleteArtifact env (Some (RemoteArtifact a)) (p, w) =
     (case deleteArtifact_api env (art_id a) (token p) w1 of
        (Inl err, w2) \<Rightarrow>
          (Inl err, (p, w2),
           [ShowWarningModal (deleteQuestion a) ''Delete'', DeleteArtifact (art_id a) (token p)])
      | (Inr u, w2) \<Rightarrow>
          (case refreshArtifacts env (p, w2) of
             (r, s, t) \<Rightarrow>
               (r, s,
                [ShowWarningModal (deleteQuestion a) ''Delete'',
                 DeleteArtifact (art_id a) (token p),
                 ShowInformationMessage
                   (''Deleted artifact '' @ quoted (art_name a) @
                    '' (#'' @ string_of_nat (art_id a) @ '')'')] @ t)))"
  using assms
  by (simp add: deleteArtifact_def prog_defs split: prod.splits sum.splits)

lemma toggle_run:
  assumes "art_owned_by_me a"
  shows "toggleVisibility env (Some (RemoteArtifact a)) (p, w) =
     (case updateArtifactVisibility env (art_id a) (\<not> art_is_public a) (token p) w of
        (Inl err, w1) \<Rightarrow>
          (Inl err, (p, w1), [UpdateArtifactVisibility (art_id a) (\<not> art_is_public a) (token p)])
      | (Inr u, w1) \<Rightarrow>
          (case refreshArtifacts env (p, w1) of
             (r, s, t) \<Rightarrow>
               (r, s,
                [UpdateArtifactVisibility (art_id a) (\<not> art_is_public a) (token p),
                 ShowInformationMessage
                   (''Artifact '' @ quoted (art_name a) @ '' is now '' @
                    (if \<not> art_is_public a then ''public'' else ''private''))] @ t)))"
  using assms
  by (simp add: toggleVisibility_def prog_defs Let_def split: prod.splits sum.splits)

lemma buildAndUpload_run:
  "buildAndUploadBinary env (Some (LocalBin bin)) (p, w) =
     (case uploadFromLocalBinary env bin (bin_name bin) (p, w) of
        (Inl err, s1, t1) \<Rightarrow> (Inl err, s1, t1)
      | (Inr u, s1, t1) \<Rightarrow>
          (case refreshArtifacts env s1 of (r, s2, t2) \<Rightarrow> (r, s2, t1 @ t2)))"
  by (simp add: buildAndUploadBinary_def bindE_def split: prod.splits sum.splits)

lemma replace_upload_throws:
  assumes "art_owned_by_me a"
    and "getCurrentLocalBinaries env (p, w) = (Inr bins, (p1, w1), t1)"
    and "bins \<noteq> []"
    and "showQuickPick env (quickPickItems bins) (replaceTitle a) w1 = (Some pick, w2)"
    and "uploadFromLocalBinary env (qp_bin pick) (art_name a) (p1, w2) = (Inl err, s3, t3)"
  shows "replaceArtifact env (Some (RemoteArtifact a)) (p, w) =
     (Inl err, s3, t1 @ [ShowQuickPick (quickPickItems bins) (replaceTitle a)] @ t3)"
  using assms
  by (simp add: replaceArtifact_def prog_defs split: prod.splits sum.splits)

lemma upload_mutations:
  assumes "uploadFromLocalBinary env bin defaultName (p, w) = (r, (p', w'), t)"
  shows "p' = p \<and> list_all (\<lambda>ev. \<not> isPublish ev) t \<and>
         (filter isRemoteMutation t = [] \<or>
          (\<exists>request. filter isRemoteMutation t = [UploadArtifact request (token p)] \<and>
             (case r of
                Inl err \<Rightarrow> last t = UploadArtifact request (token p)
              | Inr u \<Rightarrow> (\<exists>artifact_id.
                  last t = ShowInformationMessage (uploadedMessage artifact_id bin)))))"
  using assms unfolding uploadFromLocalBinary_def
  by (auto simp: prog_defs Let_def split: prod.splits sum.splits option.splits if_splits)

lemma refresh_no_mutation:
  "list_all (\<lambda>ev. \<not> isRemoteMutation ev) (events (refreshArtifacts env (p, w)))"
proof -
  from refresh_summary [of env p w] obtain p' w' pre where
    run: "refreshArtifacts env (p, w) = (Inr (), (p', w'), pre @ publication env p')"
    and pre: "list_all (\<lambda>ev. isProbe ev \<or> ev = ClearToken) pre"
    by blast
  have "list_all (\<lambda>ev. \<not> isRemoteMutation ev) xs"
    if "list_all (\<lambda>ev. isProbe ev \<or> ev = ClearToken) xs" for xs
    using that by (induction xs) (auto elim: isProbe.elims)
  with run pre show ?thesis by (simp add: events_def publication_def)
qed

lemma upload_succeeded:
  assumes "uploadFromLocalBinary env bin defaultName (p, w) = (Inr (), (p', w'), t)"
    and "list_ex isUpload t"
  shows "\<exists>request wu artifact_id.
           uploadArtifact env request (token p) wu = (Inr artifact_id, w') \<and>
           t \<noteq> [] \<and> last t = ShowInformationMessage (uploadedMessage artifact_id bin)"
  using assms unfolding uploadFromLocalBinary_def
  by (auto simp: prog_defs Let_def split: prod.splits sum.splits option.splits if_splits) blast

section \<open>Legal statuses are kept\<close>

lemma keeps_return: "keepsLegal (return x)"
  by (simp add: keepsLegal_def return_def provider_def)

lemma keeps_throw: "keepsLegal (throw err)"
  by (simp add: keepsLegal_def throw_def provider_def)

lemma keeps_emit: "keepsLegal (emit ev)"
  by (simp add: keepsLegal_def emit_def provider_def)

lemma keeps_getField: "keepsLegal (getField f)"
  by (simp add: keepsLegal_def getField_def provider_def)

lemma keeps_call: "keepsLegal (call ev f)"
  by (simp add: keepsLegal_def call_def provider_def split: prod.splits)

lemma keeps_callE: "keepsLegal (callE ev f)"
  by (simp add: keepsLegal_def callE_def provider_def split: prod.splits)

lemma keeps_modify:
  "(\<And>p. state (f p) = state p \<and> stateDetail (f p) = stateDetail p) \<Longrightarrow> keepsLegal (modify f)"
  by (simp add: keepsLegal_def modify_def provider_def legalStatus_def)

lemma keeps_bindE:
  assumes m: "keepsLegal m" and f: "\<And>x. keepsLegal (f x)"
  shows "keepsLegal (bindE m f)"
  unfolding keepsLegal_def
proof (intro allI impI)
  fix p w
  assume legal: "legalStatus p"
  obtain r p1 w1 t1 where run: "m (p, w) = (r, (p1, w1), t1)"
    by (metis prod.exhaust)
  from m legal have "legalStatus (provider (m (p, w)))"
    by (simp add: keepsLegal_def)
  with run have l1: "legalStatus p1"
    by (simp add: provider_def)
  show "legalStatus (provider (bindE m f (p, w)))"
  proof (cases r)
    case (Inl err)
    with run l1 show ?thesis by (simp add: bindE_def provider_def)
  next
    case (Inr x)
    from f [of x] l1 have "legalStatus (provider (f x (p1, w1)))"
      by (simp add: keepsLegal_def)
    with Inr run show ?thesis
      by (auto simp: bindE_def provider_def split: prod.splits)
  qed
qed

lemma keeps_catchE:
  assumes m: "keepsLegal m" and h: "\<And>err. keepsLegal (h err)"
  shows "keepsLegal (catchE m h)"
  unfolding keepsLegal_def
proof (intro allI impI)
  fix p w
  assume legal: "legalStatus p"
  obtain r p1 w1 t1 where run: "m (p, w) = (r, (p1, w1), t1)"
    by (metis prod.exhaust)
  from m legal have "legalStatus (provider (m (p, w)))"
    by (simp add: keepsLegal_def)
  with run have l1: "legalStatus p1"
    by (simp add: provider_def)
  show "legalStatus (provider (catchE m h (p, w)))"
  proof (cases r)
    case (Inr x)
    with run l1 show ?thesis by (simp add: catchE_def provider_def)
  next
    case (Inl err)
    from h [of err] l1 have "legalStatus (provider (h err (p1, w1)))"
      by (simp add: keepsLegal_def)
    with Inl run show ?thesis
      by (auto simp: catchE_def provider_def split: prod.splits)
  qed
qed

lemma keeps_refresh: "keepsLegal (refreshArtifacts env)"
  unfolding keepsLegal_def
proof (intro allI impI)
  fix p w
  from refresh_summary [of env p w] show "legalStatus (provider (refreshArtifacts env (p, w)))"
    by (auto simp: provider_def legalStatus_def)
qed

lemmas keeps_intros =
  keeps_return keeps_throw keeps_emit keeps_getField keeps_call keeps_callE keeps_bindE
  keeps_catchE keeps_refresh

lemma keeps_getCurrent: "keepsLegal (getCurrentLocalBinaries env)"
  unfolding getCurrentLocalBinaries_def
  by (auto intro!: keeps_intros keeps_modify split: option.splits)

lemma keeps_upload: "keepsLegal (uploadFromLocalBinary env bin defaultName)"
  unfolding uploadFromLocalBinary_def Let_def
  by (auto intro!: keeps_intros split: option.splits)

lemma keeps_buildBinaryItem: "keepsLegal (buildBinaryItem env item)"
  unfolding buildBinaryItem_def
  by (auto intro!: keeps_intros split: option.splits Node.splits)

lemma keeps_revealElfPath: "keepsLegal (revealElfPath env item)"
  unfolding revealElfPath_def Let_def
  by (auto intro!: keeps_intros split: option.splits Node.splits)

lemma keeps_buildAndUpload: "keepsLegal (buildAndUploadBinary env item)"
  unfolding buildAndUploadBinary_def
  by (auto intro!: keeps_intros keeps_upload split: option.splits Node.splits)

lemma keeps_replace: "keepsLegal (replaceArtifact env item)"
  unfolding replaceArtifact_def
  by (auto intro!: keeps_intros keeps_upload keeps_getCurrent split: option.splits Node.splits)

lemma keeps_delete: "keepsLegal (deleteArtifact env item)"
  unfolding deleteArtifact_def
  by (auto intro!: keeps_intros split: option.splits Node.splits)

lemma keeps_toggle: "keepsLegal (toggleVisibility env item)"
  unfolding toggleVisibility_def Let_def
  by (auto intro!: keeps_intros split: option.splits Node.splits)

section \<open>Runs in the test double\<close>

lemmas run_simps =
  refresh_run try_run auth_run workspace_run ready_run catch_run publication_def cleared_def

lemmas stub_simps =
  stubEnv_def stubWorld0_def initialProvider_def readyProvider_def car_def oldArtifact_def
  foreignArtifact_def newArtifact_def

lemma stubEnv_sel [simp]:
  "getWorkspaceRoot stubEnv w = (sw_root w, w)"
  "hasCargoToml stubEnv r w = (Inr (sw_manifest w), w)"
  "listLocalBinaries stubEnv r w = (Inr (sw_bins w), w)"
  "readToken stubEnv w = (Inr (sw_session w), w)"
  "clearToken stubEnv w = ((), w\<lparr>sw_session := None\<rparr>)"
  "fetchCapabilities stubEnv w =
     (case sw_failCapabilities w of
        Some err \<Rightarrow> (Inl err, w)
      | None \<Rightarrow> (Inr \<lparr>auth_required = sw_authRequired w\<rparr>, w))"
  "listArtifacts stubEnv tok w =
     (case sw_failList w of Some err \<Rightarrow> (Inl err, w) | None \<Rightarrow> (Inr (sw_registry w), w))"
  by (simp_all add: stubEnv_def)

lemma stubEnv_sel2 [simp]:
  "artifactOutputPath stubEnv root name = root @ ''/target/'' @ name"
  "uploadArtifact stubEnv req tok w =
     (case sw_failUpload w of
        Some err \<Rightarrow> (Inl err, w)
      | None \<Rightarrow>
          (Inr (sw_nextId w),
           w\<lparr>sw_registry := sw_registry w @
                 [\<lparr>art_id = sw_nextId w, art_name = up_name req, art_owner_username = ''me'',
                   art_is_public = False, art_owned_by_me = True\<rparr>],
             sw_nextId := Suc (sw_nextId w)\<rparr>))"
  "deleteArtifact_api stubEnv i tok w =
     (case sw_failDelete w of
        Some err \<Rightarrow> (Inl err, w)
      | None \<Rightarrow> (Inr (), w\<lparr>sw_registry := filter (\<lambda>a. art_id a \<noteq> i) (sw_registry w)\<rparr>))"
  "updateArtifactVisibility stubEnv i pub tok w =
     (Inr (),
      w\<lparr>sw_registry :=
          map (\<lambda>a. if art_id a = i then a\<lparr>art_is_public := pub\<rparr> else a) (sw_registry w)\<rparr>)"
  "buildBinary stubEnv root name w = (Inr (), w)"
  "defaultArtifactTarget stubEnv w = (''riscv32'', w)"
  "existsSync stubEnv path w = (sw_elfExists w, w)"
  "readFileSync stubEnv path w = (Inr ''ELF'', w)"
  "toBase64 stubEnv bytes = bytes"
  "trim stubEnv s = s"
  "normalize stubEnv s = s"
  "uriFsPath stubEnv s = s"
  "uriPath stubEnv s = s"
  "showInputBox stubEnv title val w =
     (if title = ''Artifact Name'' then sw_nameAnswer w else sw_noteAnswer w, w)"
  "showQuickPick stubEnv items title w =
     (case items of [] \<Rightarrow> None | x # xs \<Rightarrow> if sw_pickFirst w then Some x else None, w)"
  "showWarningModal stubEnv message button w = (sw_confirmAnswer w, w)"
  "revealFileInOS stubEnv path w = (Inr (), w)"
  by (simp_all add: stubEnv_def)

lemma stub_refresh_ready:
  "refreshArtifacts stubEnv (initialProvider, stubWorld0) =
     (Inr (),
      (\<lparr>state = Ready, stateDetail = NoneDetail, token = None, workspaceRoot = Some ''/ws'',
        localBinaries = [car], artifacts = [oldArtifact, foreignArtifact]\<rparr>, stubWorld0),
      [GetWorkspaceRoot, FetchCapabilities, HasCargoToml ''/ws'', ListLocalBinaries ''/ws'',
       ListArtifacts None,
       SetContext ''racehub.state'' (StateValue Ready),
       SetContext ''racehub.stateDetail'' (DetailValue NoneDetail),
       SetContext ''racehub.binSourcePaths'' (PathsValue [(''/ws/src/bin/car.rs'', True)]),
       Fire])"
  by (simp add: run_simps stub_simps)

lemma stub_refresh_list_fails:
  "refreshArtifacts stubEnv (initialProvider, stubWorld0\<lparr>sw_failList := Some ''HTTP 500''\<rparr>) =
     (Inr (),
      (\<lparr>state = LoggedOut, stateDetail = RequestError, token = None, workspaceRoot = Some ''/ws'',
        localBinaries = [car], artifacts = []\<rparr>, stubWorld0\<lparr>sw_failList := Some ''HTTP 500''\<rparr>),
      [GetWorkspaceRoot, FetchCapabilities, HasCargoToml ''/ws'', ListLocalBinaries ''/ws'',
       ListArtifacts None,
       SetContext ''racehub.state'' (StateValue LoggedOut),
       SetContext ''racehub.stateDetail'' (DetailValue RequestError),
       SetContext ''racehub.binSourcePaths'' (PathsValue [(''/ws/src/bin/car.rs'', True)]),
       Fire])"
  by (simp add: run_simps stub_simps)

lemma stub_upload_cancelled:
  "sw_nameAnswer w = None \<Longrightarrow> sw_elfExists w \<Longrightarrow>
   uploadFromLocalBinary stubEnv bin defaultName (p, w) =
     (Inr (), (p, w),
      [BuildBinary (bin_rootPath bin) (bin_name bin),
       ExistsSync (bin_rootPath bin @ ''/target/'' @ bin_name bin),
       ShowInputBox ''Artifact Name'' defaultName])"
  by (simp add: uploadFromLocalBinary_def prog_defs Let_def)

lemma stub_upload_done:
  "sw_nameAnswer w = Some name \<Longrightarrow> name \<noteq> [] \<Longrightarrow> sw_noteAnswer w = Some [] \<Longrightarrow>
   sw_elfExists w \<Longrightarrow> sw_failUpload w = None \<Longrightarrow>
   uploadFromLocalBinary stubEnv bin defaultName (p, w) =
     (Inr (),
      (p, w\<lparr>sw_registry := sw_registry w @
               [\<lparr>art_id = sw_nextId w, art_name = name, art_owner_username = ''me'',
                 art_is_public = False, art_owned_by_me = True\<rparr>],
            sw_nextId := Suc (sw_nextId w)\<rparr>),
      [BuildBinary (bin_rootPath bin) (bin_name bin),
       ExistsSync (bin_rootPath bin @ ''/target/'' @ bin_name bin),
       ShowInputBox ''Artifact Name'' defaultName,
       ShowInputBox ''Artifact Note (optional)'' [],
       DefaultArtifactTarget,
       ReadFileSync (bin_rootPath bin @ ''/target/'' @ bin_name bin),
       UploadArtifact \<lparr>up_name = name, up_note = None, up_target = ''riscv32'',
         up_elf_base64 = ''ELF''\<rparr> (token p),
       ShowInformationMessage (uploadedMessage (sw_nextId w) bin)])"
  by (simp add: uploadFromLocalBinary_def prog_defs Let_def noteOrNull_def)


section \<open>The refresh\<close>

text \<open>
  Claim C1. \<open>refreshArtifacts\<close> is a total function, so every run of it ends. Whatever
  the provider held and however the collaborators answer, it returns normally, the state
  and the detail it leaves are a legal pair, and the last thing it did was to publish
  exactly that provider (\<open>pushContext\<close>, then the change event); nothing was published
  before.
\<close>

theorem refreshArtifacts_publishes_legal_status:
  "\<exists>p' w' pre.
     refreshArtifacts env (p, w) = (Inr (), (p', w'), pre @ publication env p') \<and>
     legalDetail (state p') (stateDetail p') \<and>
     list_all (\<lambda>ev. \<not> isPublish ev) pre"
proof -
  from refresh_summary [of env p w] obtain p' w' pre where
    run: "refreshArtifacts env (p, w) = (Inr (), (p', w'), pre @ publication env p')"
    and legal: "legalDetail (state p') (stateDetail p')"
    and pre: "list_all (\<lambda>ev. isProbe ev \<or> ev = ClearToken) pre"
    by blast
  have "list_all (\<lambda>ev. \<not> isPublish ev) xs"
    if "list_all (\<lambda>ev. isProbe ev \<or> ev = ClearToken) xs" for xs
    using that by (induction xs) (auto elim: isProbe.elims)
  with run legal pre show ?thesis by blast
qed

theorem refreshArtifacts_publishes_legal_status_witness:
  "outcome (refreshArtifacts stubEnv (initialProvider, stubWorld0)) = Inr () \<and>
   state (provider (refreshArtifacts stubEnv (initialProvider, stubWorld0))) = Ready \<and>
   stateDetail (provider (refreshArtifacts stubEnv (initialProvider, stubWorld0))) = NoneDetail \<and>
   legalDetail Ready NoneDetail \<and>
   last (events (refreshArtifacts stubEnv (initialProvider, stubWorld0))) = Fire"
  using refreshArtifacts_publishes_legal_status [of stubEnv initialProvider stubWorld0]
  by (simp add: stub_refresh_ready outcome_def provider_def events_def)

text \<open>
  Claim C3. When the \<open>try\<close> block of a refresh throws \<open>message\<close> (by \<open>try_throws\<close>
  that is what one of \<open>fetchCapabilities\<close>, \<open>readToken\<close>, \<open>hasCargoToml\<close>,
  \<open>listLocalBinaries\<close> and \<open>listArtifacts\<close> threw, and by \<open>try_rethrows\<close> the block
  throws whatever the first of them to fail throws), the refresh still returns normally
  and leaves the state \<open>loggedOut\<close>. If the text of the error contains \<open>401\<close>, the
  detail is \<open>sessionExpired\<close> and \<open>clearToken\<close> has been called on the world the failed
  call left; otherwise the detail is \<open>requestError\<close>, \<open>clearToken\<close> has not been called
  and the world is the one the failed call left. The provider's own \<open>token\<close> field is
  not written by the handler in either case.
\<close>

theorem refreshArtifacts_error_classification:
  assumes root: "getWorkspaceRoot env w = (root, w0)"
    and thrown: "refreshArtifacts_try env (cleared p root, w0) = (Inl message, (p1, w1), t1)"
  shows "outcome (refreshArtifacts env (p, w)) = Inr () \<and>
         state (provider (refreshArtifacts env (p, w))) = LoggedOut \<and>
         token (provider (refreshArtifacts env (p, w))) = token p1 \<and>
         (if includes_str message ''401''
          then stateDetail (provider (refreshArtifacts env (p, w))) = SessionExpired \<and>
               worldOf (refreshArtifacts env (p, w)) = snd (clearToken env w1) \<and>
               ClearToken \<in> set (events (refreshArtifacts env (p, w)))
          else stateDetail (provider (refreshArtifacts env (p, w))) = RequestError \<and>
               worldOf (refreshArtifacts env (p, w)) = w1 \<and>
               ClearToken \<notin> set (events (refreshArtifacts env (p, w))))"
proof -
  from try_summary [OF thrown] have "ClearToken \<notin> set t1"
    by (simp add: isProbe_neq_ClearToken)
  with root thrown show ?thesis
    by (simp add: refresh_run catch_run outcome_def provider_def worldOf_def events_def
        publication_def)
qed


theorem refreshArtifacts_error_classification_witness:
  "includes_str ''Error: HTTP 401 Unauthorized'' ''401'' \<and>
   stateDetail (provider (refreshArtifacts stubEnv (readyProvider,
     stubWorld0\<lparr>sw_authRequired := True, sw_session := Some ''secret'',
       sw_failList := Some ''Error: HTTP 401 Unauthorized''\<rparr>))) = SessionExpired \<and>
   sw_session (worldOf (refreshArtifacts stubEnv (readyProvider,
     stubWorld0\<lparr>sw_authRequired := True, sw_session := Some ''secret'',
       sw_failList := Some ''Error: HTTP 401 Unauthorized''\<rparr>))) = None \<and>
   \<not> includes_str ''Error: HTTP 500'' ''401'' \<and>
   stateDetail (provider (refreshArtifacts stubEnv (readyProvider,
     stubWorld0\<lparr>sw_authRequired := True, sw_session := Some ''secret'',
       sw_failCapabilities := Some ''Error: HTTP 500''\<rparr>))) = RequestError \<and>
   sw_session (worldOf (refreshArtifacts stubEnv (readyProvider,
     stubWorld0\<lparr>sw_authRequired := True, sw_session := Some ''secret'',
       sw_failCapabilities := Some ''Error: HTTP 500''\<rparr>))) = Some ''secret''"
proof -
  let ?wa = "stubWorld0\<lparr>sw_authRequired := True, sw_session := Some ''secret'',
       sw_failList := Some ''Error: HTTP 401 Unauthorized''\<rparr>"
  let ?wb = "stubWorld0\<lparr>sw_authRequired := True, sw_session := Some ''secret'',
       sw_failCapabilities := Some ''Error: HTTP 500''\<rparr>"
  let ?p0 = "cleared readyProvider (Some ''/ws'')"
  have ra: "getWorkspaceRoot stubEnv ?wa = (Some ''/ws'', ?wa)" by (simp add: stubWorld0_def)
  have ta: "refreshArtifacts_try stubEnv (?p0, ?wa) =
      (Inl ''Error: HTTP 401 Unauthorized'',
       (?p0\<lparr>token := Some ''secret'', localBinaries := [car], state := Ready, stateDetail := NoneDetail\<rparr>, ?wa),
       [FetchCapabilities, ReadToken, HasCargoToml ''/ws'', ListLocalBinaries ''/ws'',
        ListArtifacts (Some ''secret'')])"
    by (simp add: try_run auth_run workspace_run ready_run stub_simps cleared_def)
  have rb: "getWorkspaceRoot stubEnv ?wb = (Some ''/ws'', ?wb)" by (simp add: stubWorld0_def)
  have tb: "refreshArtifacts_try stubEnv (?p0, ?wb) =
      (Inl ''Error: HTTP 500'', (?p0, ?wb), [FetchCapabilities])"
    by (simp add: try_run auth_run stub_simps cleared_def)
  have ia: "includes_str ''Error: HTTP 401 Unauthorized'' ''401''" by simp
  have ib: "\<not> includes_str ''Error: HTTP 500'' ''401''" by simp
  show ?thesis
    using refreshArtifacts_error_classification [OF ra ta]
      refreshArtifacts_error_classification [OF rb tb] ia ib
    by (simp add: stubWorld0_def)
qed

text \<open>
  Claim C6. When the capability probe answers \<open>auth_required\<close> and \<open>readToken\<close> finds no
  token (undefined, or the empty string, which \<open>!this.token\<close> rejects as well), the
  refresh returns normally in \<open>loggedOut\<close> / \<open>notLoggedIn\<close>. Besides the publication it
  has issued three calls: \<open>getWorkspaceRoot\<close> (line 118, before the probe), the probe and
  \<open>readToken\<close>; neither \<open>hasCargoToml\<close>, \<open>listLocalBinaries\<close> nor \<open>listArtifacts\<close>.
\<close>

theorem refreshArtifacts_not_logged_in:
  assumes caps: "fetchCapabilities env (snd (getWorkspaceRoot env w)) = (Inr caps, w1)"
    and auth: "auth_required caps"
    and tok: "readToken env w1 = (Inr tok, w2)"
    and none: "falsy tok"
  shows "outcome (refreshArtifacts env (p, w)) = Inr () \<and>
         state (provider (refreshArtifacts env (p, w))) = LoggedOut \<and>
         stateDetail (provider (refreshArtifacts env (p, w))) = NotLoggedIn \<and>
         events (refreshArtifacts env (p, w)) =
           [GetWorkspaceRoot, FetchCapabilities, ReadToken] @
           publication env (provider (refreshArtifacts env (p, w))) \<and>
         list_all (\<lambda>ev. \<not> isWorkspaceInspection ev \<and> \<not> isArtifactList ev)
           (events (refreshArtifacts env (p, w)))"
proof -
  obtain root w0 where g: "getWorkspaceRoot env w = (root, w0)"
    by (metis prod.exhaust)
  let ?p = "(cleared p root)\<lparr>token := tok, state := LoggedOut, stateDetail := NotLoggedIn\<rparr>"
  from g caps auth tok none
  have "refreshArtifacts env (p, w) =
          (Inr (), (?p, w2), [GetWorkspaceRoot, FetchCapabilities, ReadToken] @ publication env ?p)"
    by (simp add: refresh_run try_run auth_run)
  then show ?thesis
    by (simp add: outcome_def provider_def events_def publication_def)
qed

theorem refreshArtifacts_not_logged_in_witness:
  "sw_session (stubWorld0\<lparr>sw_authRequired := True\<rparr>) = None \<and>
   state (provider (refreshArtifacts stubEnv (readyProvider, stubWorld0\<lparr>sw_authRequired := True\<rparr>))) = LoggedOut \<and>
   stateDetail (provider (refreshArtifacts stubEnv (readyProvider, stubWorld0\<lparr>sw_authRequired := True\<rparr>))) = NotLoggedIn \<and>
   events (refreshArtifacts stubEnv (readyProvider, stubWorld0\<lparr>sw_authRequired := True\<rparr>)) =
     [GetWorkspaceRoot, FetchCapabilities, ReadToken,
      SetContext ''racehub.state'' (StateValue LoggedOut),
      SetContext ''racehub.stateDetail'' (DetailValue NotLoggedIn),
      SetContext ''racehub.binSourcePaths'' (PathsValue []),
      Fire]"
proof -
  let ?w = "stubWorld0\<lparr>sw_authRequired := True\<rparr>"
  have h1: "fetchCapabilities stubEnv (snd (getWorkspaceRoot stubEnv ?w)) =
              (Inr \<lparr>auth_required = True\<rparr>, ?w)"
    by (simp add: stubWorld0_def)
  have h2: "auth_required \<lparr>auth_required = True\<rparr>" by simp
  have h3: "readToken stubEnv ?w = (Inr None, ?w)" by (simp add: stubWorld0_def)
  have h4: "falsy None" by simp
  show ?thesis
    using refreshArtifacts_not_logged_in [OF h1 h2 h3 h4, of readyProvider]
    by (simp add: run_simps stub_simps outcome_def provider_def events_def)
qed

text \<open>
  Claim C7. Let a refresh pass the authentication gate: lines 121-133 run on to line 135,
  leaving the world \<open>w1\<close>. If there is no manifest, the refresh ends in
  \<open>needsWorkspace\<close> / \<open>workspaceMissing\<close>; if there is one and no local binary is found,
  it ends in \<open>needsWorkspace\<close> / \<open>noBinaries\<close>. In both cases \<open>listArtifacts\<close> has not
  been called.
\<close>

theorem refreshArtifacts_needs_workspace:
  assumes root: "getWorkspaceRoot env w = (root, w0)"
    and gate: "refreshArtifacts_auth env (cleared p root, w0) = (Inr Continue, (p1, w1), t1)"
  shows "(manifestAbsent env root w1 w2 \<longrightarrow>
            outcome (refreshArtifacts env (p, w)) = Inr () \<and>
            state (provider (refreshArtifacts env (p, w))) = NeedsWorkspace \<and>
            stateDetail (provider (refreshArtifacts env (p, w))) = WorkspaceMissing \<and>
            list_all (\<lambda>ev. \<not> isArtifactList ev) (events (refreshArtifacts env (p, w)))) \<and>
         (noBinariesFound env root w1 w3 \<longrightarrow>
            outcome (refreshArtifacts env (p, w)) = Inr () \<and>
            state (provider (refreshArtifacts env (p, w))) = NeedsWorkspace \<and>
            stateDetail (provider (refreshArtifacts env (p, w))) = NoBinaries \<and>
            list_all (\<lambda>ev. \<not> isArtifactList ev) (events (refreshArtifacts env (p, w))))"
proof -
  from gate have f: "workspaceRoot p1 = root" "noList t1"
    using auth_fields [OF gate] by (simp_all add: cleared_def)
  show ?thesis
  proof (intro conjI impI)
    assume m: "manifestAbsent env root w1 w2"
    let ?p = "p1\<lparr>state := NeedsWorkspace, stateDetail := WorkspaceMissing\<rparr>"
    from m root gate f
    have "\<exists>t. refreshArtifacts env (p, w) = (Inr (), (?p, w2), t) \<and> noList t"
      by (auto simp: refresh_run try_run workspace_run manifestAbsent_def
          split: option.splits if_splits)
    then show "outcome (refreshArtifacts env (p, w)) = Inr ()"
      "state (provider (refreshArtifacts env (p, w))) = NeedsWorkspace"
      "stateDetail (provider (refreshArtifacts env (p, w))) = WorkspaceMissing"
      "list_all (\<lambda>ev. \<not> isArtifactList ev) (events (refreshArtifacts env (p, w)))"
      by (auto simp: outcome_def provider_def events_def noList_def)
  next
    assume m: "noBinariesFound env root w1 w3"
    let ?p = "p1\<lparr>localBinaries := [], state := NeedsWorkspace, stateDetail := NoBinaries\<rparr>"
    from m root gate f
    have "\<exists>t. refreshArtifacts env (p, w) = (Inr (), (?p, w3), t) \<and> noList t"
      by (auto simp: refresh_run try_run workspace_run noBinariesFound_def
          split: option.splits if_splits prod.splits sum.splits bool.splits)
    then show "outcome (refreshArtifacts env (p, w)) = Inr ()"
      "state (provider (refreshArtifacts env (p, w))) = NeedsWorkspace"
      "stateDetail (provider (refreshArtifacts env (p, w))) = NoBinaries"
      "list_all (\<lambda>ev. \<not> isArtifactList ev) (events (refreshArtifacts env (p, w)))"
      by (auto simp: outcome_def provider_def events_def noList_def)
  qed
qed


theorem refreshArtifacts_needs_workspace_witness:
  "state (provider (refreshArtifacts stubEnv (readyProvider, stubWorld0\<lparr>sw_manifest := False\<rparr>))) = NeedsWorkspace \<and>
   stateDetail (provider (refreshArtifacts stubEnv (readyProvider, stubWorld0\<lparr>sw_manifest := False\<rparr>))) = WorkspaceMissing \<and>
   list_all (\<lambda>ev. \<not> isArtifactList ev)
     (events (refreshArtifacts stubEnv (readyProvider, stubWorld0\<lparr>sw_manifest := False\<rparr>))) \<and>
   state (provider (refreshArtifacts stubEnv (readyProvider, stubWorld0\<lparr>sw_bins := []\<rparr>))) = NeedsWorkspace \<and>
   stateDetail (provider (refreshArtifacts stubEnv (readyProvider, stubWorld0\<lparr>sw_bins := []\<rparr>))) = NoBinaries"
proof -
  let ?wa = "stubWorld0\<lparr>sw_manifest := False\<rparr>" and ?wb = "stubWorld0\<lparr>sw_bins := []\<rparr>"
  let ?p1 = "(cleared readyProvider (Some ''/ws''))\<lparr>token := None\<rparr>"
  have ra: "getWorkspaceRoot stubEnv ?wa = (Some ''/ws'', ?wa)" by (simp add: stubWorld0_def)
  have ga: "refreshArtifacts_auth stubEnv (cleared readyProvider (Some ''/ws''), ?wa) =
              (Inr Continue, (?p1, ?wa), [FetchCapabilities])"
    by (simp add: auth_run stubWorld0_def)
  have ma: "manifestAbsent stubEnv (Some ''/ws'') ?wa ?wa"
    by (simp add: manifestAbsent_def stubWorld0_def)
  have rb: "getWorkspaceRoot stubEnv ?wb = (Some ''/ws'', ?wb)" by (simp add: stubWorld0_def)
  have gb: "refreshArtifacts_auth stubEnv (cleared readyProvider (Some ''/ws''), ?wb) =
              (Inr Continue, (?p1, ?wb), [FetchCapabilities])"
    by (simp add: auth_run stubWorld0_def)
  have mb: "noBinariesFound stubEnv (Some ''/ws'') ?wb ?wb"
    by (simp add: noBinariesFound_def stubWorld0_def)
  show ?thesis
    using refreshArtifacts_needs_workspace [OF ra ga, of ?wa ?wa]
      refreshArtifacts_needs_workspace [OF rb gb, of ?wb ?wb] ma mb
    by simp
qed

text \<open>
  Claim C9, at a run that breaks it. The server needs no login, the workspace has the
  binary \<open>car\<close>, and \<open>listArtifacts\<close> throws. Line 143 has stored the binaries by then,
  the handler sets the state to \<open>loggedOut\<close> and does not touch them: the refresh ends
  logged out with a local binary in the collection (and publishes its source path).
\<close>

theorem refreshArtifacts_keeps_binaries_when_list_fails:
  "state (provider (refreshArtifacts stubEnv
      (initialProvider, stubWorld0\<lparr>sw_failList := Some ''HTTP 500''\<rparr>))) = LoggedOut \<and>
   stateDetail (provider (refreshArtifacts stubEnv
      (initialProvider, stubWorld0\<lparr>sw_failList := Some ''HTTP 500''\<rparr>))) = RequestError \<and>
   localBinaries (provider (refreshArtifacts stubEnv
      (initialProvider, stubWorld0\<lparr>sw_failList := Some ''HTTP 500''\<rparr>))) = [car]"
  by (simp add: stub_refresh_list_fails provider_def)


text \<open>
  Claim C9, as the code has it. A refresh replaces the collection: what it leaves does
  not depend on what the collection held before. If the refresh ends in \<open>ready\<close> the
  collection is not empty; if it ends in \<open>loggedOut\<close> or \<open>needsWorkspace\<close> and has not
  called the artifact-list endpoint, the collection is empty. Nothing is said here of a
  refresh whose call of the endpoint fails, nor of the other operations
  (\<open>getCurrentLocalBinaries\<close> stores what it finds whatever the state).
\<close>

theorem refreshArtifacts_replaces_localBinaries:
  "refreshArtifacts env (p\<lparr>localBinaries := bs\<rparr>, w) = refreshArtifacts env (p, w) \<and>
   (state (provider (refreshArtifacts env (p, w))) = Ready \<longrightarrow>
      localBinaries (provider (refreshArtifacts env (p, w))) \<noteq> []) \<and>
   (state (provider (refreshArtifacts env (p, w))) \<noteq> Ready \<and>
    list_all (\<lambda>ev. \<not> isArtifactList ev) (events (refreshArtifacts env (p, w))) \<longrightarrow>
      localBinaries (provider (refreshArtifacts env (p, w))) = [])"
proof -
  obtain r p' w' t where run: "refreshArtifacts env (p, w) = (r, (p', w'), t)"
    by (metis prod.exhaust)
  have "refreshArtifacts env (p\<lparr>localBinaries := bs\<rparr>, w) = refreshArtifacts env (p, w)"
    by (simp add: refresh_run cleared_def)
  with refresh_fields [OF run] run show ?thesis
    by (simp add: provider_def events_def noList_def)
qed


theorem refreshArtifacts_replaces_localBinaries_witness:
  "state (provider (refreshArtifacts stubEnv (initialProvider, stubWorld0))) = Ready \<and>
   localBinaries (provider (refreshArtifacts stubEnv
     (initialProvider\<lparr>localBinaries := [car, car]\<rparr>, stubWorld0))) = [car] \<and>
   state (provider (refreshArtifacts stubEnv
     (readyProvider, stubWorld0\<lparr>sw_authRequired := True\<rparr>))) = LoggedOut \<and>
   list_all (\<lambda>ev. \<not> isArtifactList ev) (events (refreshArtifacts stubEnv
     (readyProvider, stubWorld0\<lparr>sw_authRequired := True\<rparr>))) \<and>
   localBinaries (provider (refreshArtifacts stubEnv
     (readyProvider, stubWorld0\<lparr>sw_authRequired := True\<rparr>))) = []"
proof -
  have a: "refreshArtifacts stubEnv (readyProvider, stubWorld0\<lparr>sw_authRequired := True\<rparr>) =
      (Inr (),
       (\<lparr>state = LoggedOut, stateDetail = NotLoggedIn, token = None, workspaceRoot = Some ''/ws'',
         localBinaries = [], artifacts = []\<rparr>, stubWorld0\<lparr>sw_authRequired := True\<rparr>),
       [GetWorkspaceRoot, FetchCapabilities, ReadToken,
        SetContext ''racehub.state'' (StateValue LoggedOut),
        SetContext ''racehub.stateDetail'' (DetailValue NotLoggedIn),
        SetContext ''racehub.binSourcePaths'' (PathsValue []),
        Fire])"
    by (simp add: run_simps stub_simps)
  show ?thesis
    using refreshArtifacts_replaces_localBinaries [where env = stubEnv and p = initialProvider
        and bs = "[car, car]" and w = stubWorld0]
      refreshArtifacts_replaces_localBinaries [where env = stubEnv and p = readyProvider
        and bs = "[]" and w = "stubWorld0\<lparr>sw_authRequired := True\<rparr>"]
    unfolding a
    by (simp add: stub_refresh_ready provider_def events_def)
qed

text \<open>
  Claim C8, as stated, fails: the state and the detail are two fields of independent
  types, so a provider with the state \<open>ready\<close> and the detail \<open>notLoggedIn\<close> is a value of
  the type; and lines 115-118 themselves pass through such a value, \<open>loggedOut\<close> with the
  detail \<open>none\<close>, on the way from the initial provider into the \<open>try\<close> block.
\<close>

theorem illegal_status_is_representable:
  "state (readyProvider\<lparr>stateDetail := NotLoggedIn\<rparr>) = Ready \<and>
   stateDetail (readyProvider\<lparr>stateDetail := NotLoggedIn\<rparr>) = NotLoggedIn \<and>
   \<not> legalDetail Ready NotLoggedIn \<and>
   state (cleared initialProvider None) = LoggedOut \<and>
   stateDetail (cleared initialProvider None) = NoneDetail \<and>
   \<not> legalDetail LoggedOut NoneDetail"
  by (simp add: readyProvider_def initialProvider_def cleared_def)

text \<open>
  Claim C8, as the code has it: legal pairs by convention. The initial provider is
  legal, a refresh leaves a legal pair whatever it started from, and each of the six
  operations on an item leaves a legal provider legal.
\<close>

theorem status_is_legal_by_convention:
  "legalStatus initialProvider \<and>
   legalStatus (provider (refreshArtifacts env (p, w))) \<and>
   keepsLegal (buildBinaryItem env item) \<and>
   keepsLegal (revealElfPath env item) \<and>
   keepsLegal (buildAndUploadBinary env item) \<and>
   keepsLegal (replaceArtifact env item) \<and>
   keepsLegal (deleteArtifact env item) \<and>
   keepsLegal (toggleVisibility env item)"
proof -
  from refresh_summary [of env p w] have "legalStatus (provider (refreshArtifacts env (p, w)))"
    by (auto simp: provider_def legalStatus_def)
  then show ?thesis
    by (simp add: keeps_buildBinaryItem keeps_revealElfPath keeps_buildAndUpload keeps_replace
        keeps_delete keeps_toggle legalStatus_def initialProvider_def)
qed

theorem status_is_legal_by_convention_witness:
  "legalStatus readyProvider \<and>
   legalStatus (provider (toggleVisibility stubEnv (Some (RemoteArtifact oldArtifact))
     (readyProvider, stubWorld0))) \<and>
   legalStatus (provider (deleteArtifact stubEnv (Some (RemoteArtifact foreignArtifact))
     (readyProvider, stubWorld0))) \<and>
   legalStatus (provider (refreshArtifacts stubEnv
     (readyProvider\<lparr>stateDetail := NotLoggedIn\<rparr>, stubWorld0)))"
proof -
  have l: "legalStatus readyProvider" by (simp add: legalStatus_def readyProvider_def)
  from status_is_legal_by_convention [where env = stubEnv
      and item = "Some (RemoteArtifact oldArtifact)"
      and p = "readyProvider\<lparr>stateDetail := NotLoggedIn\<rparr>" and w = stubWorld0]
    status_is_legal_by_convention [where env = stubEnv
      and item = "Some (RemoteArtifact foreignArtifact)"
      and p = "readyProvider\<lparr>stateDetail := NotLoggedIn\<rparr>" and w = stubWorld0] l
  show ?thesis by (simp add: keepsLegal_def)
qed

section \<open>The workflows\<close>

text \<open>
  Claim C10. Each of the six operations on an item, called with no item or with an item
  of another kind than the one it works on, returns normally at once: no call is issued
  (the list of events is empty) and the provider and the world are what they were.
\<close>

theorem mismatched_item_is_ignored:
  "(\<not> isLocalBinItem item \<longrightarrow>
      buildBinaryItem env item (p, w) = (Inr (), (p, w), []) \<and>
      revealElfPath env item (p, w) = (Inr (), (p, w), []) \<and>
      buildAndUploadBinary env item (p, w) = (Inr (), (p, w), [])) \<and>
   (\<not> isRemoteArtifactItem item \<longrightarrow>
      replaceArtifact env item (p, w) = (Inr (), (p, w), []) \<and>
      deleteArtifact env item (p, w) = (Inr (), (p, w), []) \<and>
      toggleVisibility env item (p, w) = (Inr (), (p, w), []))"
proof (cases item)
  case None
  then show ?thesis
    by (simp add: buildBinaryItem_def revealElfPath_def buildAndUploadBinary_def
        replaceArtifact_def deleteArtifact_def toggleVisibility_def return_def)
next
  case (Some node)
  then show ?thesis
    by (cases node)
      (simp_all add: buildBinaryItem_def revealElfPath_def buildAndUploadBinary_def
        replaceArtifact_def deleteArtifact_def toggleVisibility_def return_def)
qed

theorem mismatched_item_is_ignored_witness:
  "\<not> isLocalBinItem None \<and> \<not> isRemoteArtifactItem None \<and>
   buildAndUploadBinary stubEnv None (readyProvider, stubWorld0) = (Inr (), (readyProvider, stubWorld0), []) \<and>
   toggleVisibility stubEnv None (readyProvider, stubWorld0) = (Inr (), (readyProvider, stubWorld0), []) \<and>
   \<not> isRemoteArtifactItem (Some (LocalBin car)) \<and>
   deleteArtifact stubEnv (Some (LocalBin car)) (readyProvider, stubWorld0) =
     (Inr (), (readyProvider, stubWorld0), []) \<and>
   replaceArtifact stubEnv (Some (Message ''No artifacts found'')) (readyProvider, stubWorld0) =
     (Inr (), (readyProvider, stubWorld0), []) \<and>
   \<not> isLocalBinItem (Some (RemoteArtifact oldArtifact)) \<and>
   buildBinaryItem stubEnv (Some (RemoteArtifact oldArtifact)) (readyProvider, stubWorld0) =
     (Inr (), (readyProvider, stubWorld0), []) \<and>
   revealElfPath stubEnv (Some (RootNode LocalRoot)) (readyProvider, stubWorld0) =
     (Inr (), (readyProvider, stubWorld0), [])"
  using mismatched_item_is_ignored [of None stubEnv readyProvider stubWorld0]
    mismatched_item_is_ignored [of "Some (LocalBin car)" stubEnv readyProvider stubWorld0]
    mismatched_item_is_ignored [of "Some (Message ''No artifacts found'')" stubEnv readyProvider stubWorld0]
    mismatched_item_is_ignored [of "Some (RemoteArtifact oldArtifact)" stubEnv readyProvider stubWorld0]
    mismatched_item_is_ignored [of "Some (RootNode LocalRoot)" stubEnv readyProvider stubWorld0]
  by simp

text \<open>
  Claim C4. On an artifact that is not \<open>owned_by_me\<close>, \<open>deleteArtifact\<close>,
  \<open>replaceArtifact\<close> and \<open>toggleVisibility\<close> reject with their precondition error, issue
  no call at all and leave the provider and the world as they were. On an artifact of the
  operator's, \<open>replaceArtifact\<close> rejects with its precondition error when
  \<open>getCurrentLocalBinaries\<close> finds no binary, having issued no network call (it has
  looked at the workspace), and \<open>deleteArtifact\<close> returns normally, having only asked,
  when the answer to the confirmation is not \<open>Delete\<close>.
\<close>

theorem unmet_preconditions_abort:
  "(\<not> art_owned_by_me a \<longrightarrow>
      deleteArtifact env (Some (RemoteArtifact a)) (p, w) =
        (Inl (Error ''You can only delete artifacts you own.''), (p, w), []) \<and>
      replaceArtifact env (Some (RemoteArtifact a)) (p, w) =
        (Inl (Error ''You can only replace artifacts you own.''), (p, w), []) \<and>
      toggleVisibility env (Some (RemoteArtifact a)) (p, w) =
        (Inl (Error ''You can only change visibility of artifacts you own.''), (p, w), [])) \<and>
   (art_owned_by_me a \<and> getCurrentLocalBinaries env (p, w) = (Inr [], (p1, w1), t1) \<longrightarrow>
      replaceArtifact env (Some (RemoteArtifact a)) (p, w) =
        (Inl (Error ''No local binaries available in the current bot workspace.''), (p1, w1), t1) \<and>
      list_all (\<lambda>ev. \<not> isNetworkCall ev) t1) \<and>
   (art_owned_by_me a \<and> showWarningModal env (deleteQuestion a) ''Delete'' w = (answer, w2) \<and>
    answer \<noteq> Some ''Delete'' \<longrightarrow>
      deleteArtifact env (Some (RemoteArtifact a)) (p, w) =
        (Inr (), (p, w2), [ShowWarningModal (deleteQuestion a) ''Delete'']))"
proof (intro conjI impI)
  assume "\<not> art_owned_by_me a"
  then show "deleteArtifact env (Some (RemoteArtifact a)) (p, w) =
        (Inl (Error ''You can only delete artifacts you own.''), (p, w), [])"
    "replaceArtifact env (Some (RemoteArtifact a)) (p, w) =
        (Inl (Error ''You can only replace artifacts you own.''), (p, w), [])"
    "toggleVisibility env (Some (RemoteArtifact a)) (p, w) =
        (Inl (Error ''You can only change visibility of artifacts you own.''), (p, w), [])"
    by (simp_all add: deleteArtifact_def replaceArtifact_def toggleVisibility_def throw_def)
next
  assume h: "art_owned_by_me a \<and> getCurrentLocalBinaries env (p, w) = (Inr [], (p1, w1), t1)"
  then show "replaceArtifact env (Some (RemoteArtifact a)) (p, w) =
        (Inl (Error ''No local binaries available in the current bot workspace.''), (p1, w1), t1)"
    by (simp add: replaceArtifact_def bindE_def throw_def)
  from h getCurrent_summary [of env p w "Inr []" p1 w1 t1]
  show "list_all (\<lambda>ev. \<not> isNetworkCall ev) t1" by simp
next
  assume "art_owned_by_me a \<and> showWarningModal env (deleteQuestion a) ''Delete'' w = (answer, w2) \<and>
    answer \<noteq> Some ''Delete''"
  then show "deleteArtifact env (Some (RemoteArtifact a)) (p, w) =
        (Inr (), (p, w2), [ShowWarningModal (deleteQuestion a) ''Delete''])"
    by (simp add: deleteArtifact_def bindE_def call_def return_def)
qed


theorem unmet_preconditions_abort_witness:
  "\<not> art_owned_by_me foreignArtifact \<and>
   deleteArtifact stubEnv (Some (RemoteArtifact foreignArtifact)) (readyProvider, stubWorld0) =
     (Inl ''Error: You can only delete artifacts you own.'', (readyProvider, stubWorld0), []) \<and>
   replaceArtifact stubEnv (Some (RemoteArtifact foreignArtifact)) (readyProvider, stubWorld0) =
     (Inl ''Error: You can only replace artifacts you own.'', (readyProvider, stubWorld0), []) \<and>
   toggleVisibility stubEnv (Some (RemoteArtifact foreignArtifact)) (readyProvider, stubWorld0) =
     (Inl ''Error: You can only change visibility of artifacts you own.'', (readyProvider, stubWorld0), []) \<and>
   art_owned_by_me oldArtifact \<and>
   outcome (replaceArtifact stubEnv (Some (RemoteArtifact oldArtifact))
     (readyProvider, stubWorld0\<lparr>sw_bins := []\<rparr>)) =
     Inl ''Error: No local binaries available in the current bot workspace.'' \<and>
   events (replaceArtifact stubEnv (Some (RemoteArtifact oldArtifact))
     (readyProvider, stubWorld0\<lparr>sw_bins := []\<rparr>)) =
     [GetWorkspaceRoot, HasCargoToml ''/ws'', ListLocalBinaries ''/ws''] \<and>
   events (deleteArtifact stubEnv (Some (RemoteArtifact oldArtifact))
     (readyProvider, stubWorld0\<lparr>sw_confirmAnswer := None\<rparr>)) =
     [ShowWarningModal (deleteQuestion oldArtifact) ''Delete''] \<and>
   deleteArtifact stubEnv (Some (RemoteArtifact oldArtifact))
     (readyProvider, stubWorld0\<lparr>sw_confirmAnswer := None\<rparr>) =
     (Inr (), (readyProvider, stubWorld0\<lparr>sw_confirmAnswer := None\<rparr>),
      [ShowWarningModal (deleteQuestion oldArtifact) ''Delete''])"
proof -
  let ?wb = "stubWorld0\<lparr>sw_bins := []\<rparr>" and ?wc = "stubWorld0\<lparr>sw_confirmAnswer := None\<rparr>"
  have a: "\<not> art_owned_by_me foreignArtifact" by (simp add: foreignArtifact_def)
  have b: "art_owned_by_me oldArtifact" by (simp add: oldArtifact_def)
  have g: "getCurrentLocalBinaries stubEnv (readyProvider, ?wb) =
      (Inr [], (readyProvider\<lparr>workspaceRoot := Some ''/ws'', localBinaries := []\<rparr>, ?wb),
       [GetWorkspaceRoot, HasCargoToml ''/ws'', ListLocalBinaries ''/ws''])"
    by (simp add: getCurrent_run stubWorld0_def)
  have c: "showWarningModal stubEnv (deleteQuestion oldArtifact) ''Delete'' ?wc = (None, ?wc)"
    by (simp add: stubWorld0_def)
  show ?thesis
    using unmet_preconditions_abort [where env = stubEnv and a = foreignArtifact
        and p = readyProvider and w = stubWorld0]
      unmet_preconditions_abort [where env = stubEnv and a = oldArtifact
        and p = readyProvider and w = ?wb
        and ?p1.0 = "readyProvider\<lparr>workspaceRoot := Some ''/ws'', localBinaries := []\<rparr>"
        and ?w1.0 = ?wb
        and ?t1.0 = "[GetWorkspaceRoot, HasCargoToml ''/ws'', ListLocalBinaries ''/ws'']"]
      unmet_preconditions_abort [where env = stubEnv and a = oldArtifact
        and p = readyProvider and w = ?wc and answer = None and ?w2.0 = ?wc]
      a b g c
    by (simp add: Error_def outcome_def events_def)
qed

text \<open>
  Claim C2, at a run that breaks it. The operator replaces the artifact #7 (\<open>car\<close>) from
  the binary \<open>car\<close> and dismisses the prompt for the artifact name.
  \<open>uploadFromLocalBinary\<close> returns at line 355 without uploading and without an error, so
  \<open>replaceArtifact\<close> goes on to line 284: the one remote mutation of the run is the
  deletion of #7, the message says the artifact was replaced by uploading a new build,
  and the registry and the refreshed snapshot hold neither the old artifact nor a new
  one. (\<open>replace_run\<close> is the general fact: whenever \<open>uploadFromLocalBinary\<close> returns
  normally, uploaded or not, the deletion is issued. On the other paths, \<open>delete_run\<close>,
  \<open>toggle_run\<close>, \<open>buildAndUpload_run\<close> and \<open>replace_upload_throws\<close>, a remote call that
  succeeds is followed by one refresh and one that throws ends the operation.)
\<close>

theorem replaceArtifact_deletes_without_upload:
  "outcome (replaceArtifact stubEnv (Some (RemoteArtifact oldArtifact))
      (readyProvider, stubWorld0\<lparr>sw_nameAnswer := None\<rparr>)) = Inr () \<and>
   filter isRemoteMutation (events (replaceArtifact stubEnv (Some (RemoteArtifact oldArtifact))
      (readyProvider, stubWorld0\<lparr>sw_nameAnswer := None\<rparr>))) = [DeleteArtifact 7 None] \<and>
   ShowInformationMessage (replacedMessage oldArtifact) \<in>
     set (events (replaceArtifact stubEnv (Some (RemoteArtifact oldArtifact))
      (readyProvider, stubWorld0\<lparr>sw_nameAnswer := None\<rparr>))) \<and>
   sw_registry (worldOf (replaceArtifact stubEnv (Some (RemoteArtifact oldArtifact))
      (readyProvider, stubWorld0\<lparr>sw_nameAnswer := None\<rparr>))) = [foreignArtifact] \<and>
   artifacts (provider (replaceArtifact stubEnv (Some (RemoteArtifact oldArtifact))
      (readyProvider, stubWorld0\<lparr>sw_nameAnswer := None\<rparr>))) = [foreignArtifact]"
proof -
  let ?w = "stubWorld0\<lparr>sw_nameAnswer := None\<rparr>"
  let ?w' = "?w\<lparr>sw_registry := [foreignArtifact]\<rparr>"
  let ?pick = "\<lparr>qp_label = ''car'', qp_description = ''/ws/src/bin/car.rs'', qp_bin = car\<rparr>"
  have o: "art_owned_by_me oldArtifact" by (simp add: oldArtifact_def)
  have g: "getCurrentLocalBinaries stubEnv (readyProvider, ?w) =
      (Inr [car], (readyProvider, ?w),
       [GetWorkspaceRoot, HasCargoToml ''/ws'', ListLocalBinaries ''/ws''])"
    by (simp add: getCurrent_run stubWorld0_def readyProvider_def)
  have pk: "showQuickPick stubEnv (quickPickItems [car]) (replaceTitle oldArtifact) ?w =
      (Some ?pick, ?w)"
    by (simp add: quickPickItems_def stubWorld0_def car_def)
  have u: "uploadFromLocalBinary stubEnv (qp_bin ?pick) (art_name oldArtifact) (readyProvider, ?w) =
      (Inr (), (readyProvider, ?w),
       [BuildBinary ''/ws'' ''car'', ExistsSync ''/ws/target/car'',
        ShowInputBox ''Artifact Name'' ''car''])"
    by (simp add: stub_upload_cancelled stubWorld0_def car_def oldArtifact_def)
  have d: "deleteArtifact_api stubEnv (art_id oldArtifact) (token readyProvider) ?w = (Inr (), ?w')"
    by (simp add: stubWorld0_def oldArtifact_def foreignArtifact_def)
  have r: "refreshArtifacts stubEnv (readyProvider, ?w') =
      (Inr (), (readyProvider\<lparr>artifacts := [foreignArtifact]\<rparr>, ?w'),
       [GetWorkspaceRoot, FetchCapabilities, HasCargoToml ''/ws'', ListLocalBinaries ''/ws'',
        ListArtifacts None] @ publication stubEnv (readyProvider\<lparr>artifacts := [foreignArtifact]\<rparr>))"
    by (simp add: run_simps stubWorld0_def readyProvider_def)
  have n: "[car] \<noteq> []" by simp
  show ?thesis
    unfolding replace_run [OF o g n pk u] d prod.case sum.case r
    by (simp add: outcome_def events_def worldOf_def provider_def publication_def
        oldArtifact_def readyProvider_def)
qed

text \<open>
  Claim C5, at a run that breaks its last part. The upload succeeds, then the server
  cannot be reached: the deletion fails and so does the capability probe of the refresh
  that follows. The operation returns normally and the registry holds the new artifact,
  but the refresh ends in \<open>loggedOut\<close> and the snapshot of artifacts is empty.
\<close>

theorem replaceArtifact_snapshot_empty_when_refresh_fails:
  "outcome (replaceArtifact stubEnv (Some (RemoteArtifact oldArtifact))
     (readyProvider, stubWorld0\<lparr>sw_failDelete := Some ''Error: fetch failed'',
        sw_failCapabilities := Some ''Error: fetch failed''\<rparr>)) = Inr () \<and>
   sw_registry (worldOf (replaceArtifact stubEnv (Some (RemoteArtifact oldArtifact))
     (readyProvider, stubWorld0\<lparr>sw_failDelete := Some ''Error: fetch failed'',
        sw_failCapabilities := Some ''Error: fetch failed''\<rparr>))) =
     [oldArtifact, foreignArtifact, newArtifact] \<and>
   state (provider (replaceArtifact stubEnv (Some (RemoteArtifact oldArtifact))
     (readyProvider, stubWorld0\<lparr>sw_failDelete := Some ''Error: fetch failed'',
        sw_failCapabilities := Some ''Error: fetch failed''\<rparr>))) = LoggedOut \<and>
   artifacts (provider (replaceArtifact stubEnv (Some (RemoteArtifact oldArtifact))
     (readyProvider, stubWorld0\<lparr>sw_failDelete := Some ''Error: fetch failed'',
        sw_failCapabilities := Some ''Error: fetch failed''\<rparr>))) = []"
proof -
  let ?w = "stubWorld0\<lparr>sw_failDelete := Some ''Error: fetch failed'',
        sw_failCapabilities := Some ''Error: fetch failed''\<rparr>"
  let ?w' = "?w\<lparr>sw_registry := [oldArtifact, foreignArtifact, newArtifact], sw_nextId := 43\<rparr>"
  let ?pick = "\<lparr>qp_label = ''car'', qp_description = ''/ws/src/bin/car.rs'', qp_bin = car\<rparr>"
  let ?up = "[BuildBinary ''/ws'' ''car'', ExistsSync ''/ws/target/car'',
        ShowInputBox ''Artifact Name'' ''car'', ShowInputBox ''Artifact Note (optional)'' [],
        DefaultArtifactTarget, ReadFileSync ''/ws/target/car'',
        UploadArtifact \<lparr>up_name = ''car'', up_note = None, up_target = ''riscv32'',
          up_elf_base64 = ''ELF''\<rparr> None,
        ShowInformationMessage (uploadedMessage 42 car)]"
  let ?p' = "readyProvider\<lparr>artifacts := [], localBinaries := [], state := LoggedOut,
        stateDetail := RequestError\<rparr>"
  have o: "art_owned_by_me oldArtifact" by (simp add: oldArtifact_def)
  have g: "getCurrentLocalBinaries stubEnv (readyProvider, ?w) =
      (Inr [car], (readyProvider, ?w),
       [GetWorkspaceRoot, HasCargoToml ''/ws'', ListLocalBinaries ''/ws''])"
    by (simp add: getCurrent_run stubWorld0_def readyProvider_def)
  have n: "[car] \<noteq> []" by simp
  have pk: "showQuickPick stubEnv (quickPickItems [car]) (replaceTitle oldArtifact) ?w =
      (Some ?pick, ?w)"
    by (simp add: quickPickItems_def stubWorld0_def car_def)
  have u: "uploadFromLocalBinary stubEnv (qp_bin ?pick) (art_name oldArtifact) (readyProvider, ?w) =
      (Inr (), (readyProvider, ?w'), ?up)"
    by (simp add: stub_upload_done [where name = "''car''"] stubWorld0_def car_def oldArtifact_def
        newArtifact_def readyProvider_def)
  have d: "deleteArtifact_api stubEnv (art_id oldArtifact) (token readyProvider) ?w' =
      (Inl ''Error: fetch failed'', ?w')"
    by (simp add: stubWorld0_def)
  have r: "refreshArtifacts stubEnv (readyProvider, ?w') =
      (Inr (), (?p', ?w'), [GetWorkspaceRoot, FetchCapabilities] @ publication stubEnv ?p')"
    by (simp add: run_simps stubWorld0_def readyProvider_def)
  show ?thesis
    unfolding replace_run [OF o g n pk u] d prod.case sum.case r
    by (simp add: outcome_def worldOf_def provider_def stubWorld0_def)
qed

text \<open>
  Claim C5, as the code has it. Let \<open>replaceArtifact\<close> run on an artifact of the
  operator's, with a binary picked, let \<open>uploadFromLocalBinary\<close> return normally having
  called \<open>uploadArtifact\<close> (by \<open>upload_succeeded\<close> the call succeeded), and let the
  deletion of the old artifact throw \<open>err\<close>. Then the operation returns normally; after
  the failed deletion it shows the warning and runs one refresh, and that is all it does:
  the refresh issues no upload, deletion or change of visibility, so nothing is undone.
  The snapshot is the one that refresh leaves: the list \<open>listArtifacts\<close> returned if it
  ended in \<open>ready\<close>, and empty otherwise.
\<close>

theorem replaceArtifact_keeps_upload_when_delete_fails:
  assumes owned: "art_owned_by_me a"
    and bins: "getCurrentLocalBinaries env (p, w) = (Inr bins, (p1, w1), t1)"
    and some: "bins \<noteq> []"
    and pick: "showQuickPick env (quickPickItems bins) (replaceTitle a) w1 = (Some pick, w2)"
    and upload: "uploadFromLocalBinary env (qp_bin pick) (art_name a) (p1, w2) = (Inr (), (p2, w3), t3)"
    and uploaded: "list_ex isUpload t3"
    and delete: "deleteArtifact_api env (art_id a) (token p2) w3 = (Inl err, w4)"
  shows "outcome (replaceArtifact env (Some (RemoteArtifact a)) (p, w)) = Inr () \<and>
         provider (replaceArtifact env (Some (RemoteArtifact a)) (p, w)) =
           provider (refreshArtifacts env (p2, w4)) \<and>
         worldOf (replaceArtifact env (Some (RemoteArtifact a)) (p, w)) =
           worldOf (refreshArtifacts env (p2, w4)) \<and>
         events (replaceArtifact env (Some (RemoteArtifact a)) (p, w)) =
           t1 @ [ShowQuickPick (quickPickItems bins) (replaceTitle a)] @ t3 @
           [DeleteArtifact (art_id a) (token p2), ShowWarningMessage (deleteFailedWarning a err)] @
           events (refreshArtifacts env (p2, w4)) \<and>
         list_all (\<lambda>ev. \<not> isRemoteMutation ev) (events (refreshArtifacts env (p2, w4))) \<and>
         (state (provider (replaceArtifact env (Some (RemoteArtifact a)) (p, w))) = Ready \<longrightarrow>
            (\<exists>wl. listArtifacts env (token (provider (replaceArtifact env (Some (RemoteArtifact a)) (p, w)))) wl =
               (Inr (artifacts (provider (replaceArtifact env (Some (RemoteArtifact a)) (p, w)))),
                worldOf (replaceArtifact env (Some (RemoteArtifact a)) (p, w))))) \<and>
         (state (provider (replaceArtifact env (Some (RemoteArtifact a)) (p, w))) \<noteq> Ready \<longrightarrow>
            artifacts (provider (replaceArtifact env (Some (RemoteArtifact a)) (p, w))) = [])"
proof -
  from refresh_summary [of env p2 w4] obtain p' w' pre where
    run: "refreshArtifacts env (p2, w4) = (Inr (), (p', w'), pre @ publication env p')"
    by blast
  from replace_run [OF owned bins some pick upload] delete run
  have rep: "replaceArtifact env (Some (RemoteArtifact a)) (p, w) =
      (Inr (), (p', w'),
       t1 @ [ShowQuickPick (quickPickItems bins) (replaceTitle a)] @ t3 @
       [DeleteArtifact (art_id a) (token p2), ShowWarningMessage (deleteFailedWarning a err)] @
       pre @ publication env p')"
    by simp
  from refresh_fields [OF run] rep run refresh_no_mutation [of env p2 w4]
  show ?thesis
    by (simp add: outcome_def provider_def worldOf_def events_def)
qed

theorem replaceArtifact_keeps_upload_when_delete_fails_witness:
  "outcome (replaceArtifact stubEnv (Some (RemoteArtifact oldArtifact))
     (readyProvider, stubWorld0\<lparr>sw_failDelete := Some ''Error: HTTP 500''\<rparr>)) = Inr () \<and>
   ShowWarningMessage (deleteFailedWarning oldArtifact ''Error: HTTP 500'') \<in>
     set (events (replaceArtifact stubEnv (Some (RemoteArtifact oldArtifact))
       (readyProvider, stubWorld0\<lparr>sw_failDelete := Some ''Error: HTTP 500''\<rparr>))) \<and>
   filter isRemoteMutation (events (replaceArtifact stubEnv (Some (RemoteArtifact oldArtifact))
       (readyProvider, stubWorld0\<lparr>sw_failDelete := Some ''Error: HTTP 500''\<rparr>))) =
     [UploadArtifact \<lparr>up_name = ''car'', up_note = None, up_target = ''riscv32'',
        up_elf_base64 = ''ELF''\<rparr> None,
      DeleteArtifact 7 None] \<and>
   state (provider (replaceArtifact stubEnv (Some (RemoteArtifact oldArtifact))
     (readyProvider, stubWorld0\<lparr>sw_failDelete := Some ''Error: HTTP 500''\<rparr>))) = Ready \<and>
   artifacts (provider (replaceArtifact stubEnv (Some (RemoteArtifact oldArtifact))
     (readyProvider, stubWorld0\<lparr>sw_failDelete := Some ''Error: HTTP 500''\<rparr>))) =
     [oldArtifact, foreignArtifact, newArtifact]"
proof -
  let ?w = "stubWorld0\<lparr>sw_failDelete := Some ''Error: HTTP 500''\<rparr>"
  let ?w' = "?w\<lparr>sw_registry := [oldArtifact, foreignArtifact, newArtifact], sw_nextId := 43\<rparr>"
  let ?pick = "\<lparr>qp_label = ''car'', qp_description = ''/ws/src/bin/car.rs'', qp_bin = car\<rparr>"
  let ?up = "[BuildBinary ''/ws'' ''car'', ExistsSync ''/ws/target/car'',
        ShowInputBox ''Artifact Name'' ''car'', ShowInputBox ''Artifact Note (optional)'' [],
        DefaultArtifactTarget, ReadFileSync ''/ws/target/car'',
        UploadArtifact \<lparr>up_name = ''car'', up_note = None, up_target = ''riscv32'',
          up_elf_base64 = ''ELF''\<rparr> None,
        ShowInformationMessage (uploadedMessage 42 car)]"
  have o: "art_owned_by_me oldArtifact" by (simp add: oldArtifact_def)
  have g: "getCurrentLocalBinaries stubEnv (readyProvider, ?w) =
      (Inr [car], (readyProvider, ?w),
       [GetWorkspaceRoot, HasCargoToml ''/ws'', ListLocalBinaries ''/ws''])"
    by (simp add: getCurrent_run stubWorld0_def readyProvider_def)
  have n: "[car] \<noteq> []" by simp
  have pk: "showQuickPick stubEnv (quickPickItems [car]) (replaceTitle oldArtifact) ?w =
      (Some ?pick, ?w)"
    by (simp add: quickPickItems_def stubWorld0_def car_def)
  have u: "uploadFromLocalBinary stubEnv (qp_bin ?pick) (art_name oldArtifact) (readyProvider, ?w) =
      (Inr (), (readyProvider, ?w'), ?up)"
    by (simp add: stub_upload_done [where name = "''car''"] stubWorld0_def car_def oldArtifact_def
        newArtifact_def readyProvider_def)
  have ex: "list_ex isUpload ?up" by simp
  have d: "deleteArtifact_api stubEnv (art_id oldArtifact) (token readyProvider) ?w' =
      (Inl ''Error: HTTP 500'', ?w')"
    by (simp add: stubWorld0_def)
  have r: "refreshArtifacts stubEnv (readyProvider, ?w') =
      (Inr (), (readyProvider\<lparr>artifacts := [oldArtifact, foreignArtifact, newArtifact]\<rparr>, ?w'),
       [GetWorkspaceRoot, FetchCapabilities, HasCargoToml ''/ws'', ListLocalBinaries ''/ws'',
        ListArtifacts None] @
       publication stubEnv (readyProvider\<lparr>artifacts := [oldArtifact, foreignArtifact, newArtifact]\<rparr>))"
    by (simp add: run_simps stubWorld0_def readyProvider_def)
  show ?thesis
    using replaceArtifact_keeps_upload_when_delete_fails [OF o g n pk u ex d]
    unfolding r
    by (simp add: provider_def events_def publication_def oldArtifact_def readyProvider_def)
qed

end
